theory Spec2Isabelle
  imports Main "HOL-Library.Sublist" "HOL-Library.Word"
begin

section \<open>Python values used by the tools\<close>

text \<open>
  The tools of the GovInfo server exchange JSON with the upstream API. A decoded JSON
  document is a Python value: \<open>None\<close>, a bool, a number, a \<open>str\<close>, a \<open>list\<close> or a
  \<open>dict\<close>. A \<open>dict\<close> is kept as an association list in insertion order, as Python
  keeps it. Numbers are integers here; no tool computes with a number it receives.
\<close>

datatype json =
    JNull
  | JBool bool
  | JNum int
  | JStr string
  | JArr "json list"
  | JObj "(string \<times> json) list"

type_synonym byte = "8 word"

subsection \<open>Strings\<close>

definition quoted :: "string \<Rightarrow> string" where
  "quoted s = CHR 0x27 # s @ [CHR 0x27]"

definition ascii_uppercase :: string where
  "ascii_uppercase = ''ABCDEFGHIJKLMNOPQRSTUVWXYZ''"

definition ascii_lowercase :: string where
  "ascii_lowercase = ''abcdefghijklmnopqrstuvwxyz''"

text \<open>\<open>str.lower()\<close> and \<open>str.upper()\<close> on ASCII text: only the 26 letters move.\<close>

definition py_lower_char :: "char \<Rightarrow> char" where
  "py_lower_char c =
     (case map_of (zip ascii_uppercase ascii_lowercase) c of Some l \<Rightarrow> l | None \<Rightarrow> c)"

definition py_lower :: "string \<Rightarrow> string" where
  "py_lower s = map py_lower_char s"

definition py_upper_char :: "char \<Rightarrow> char" where
  "py_upper_char c =
     (case map_of (zip ascii_lowercase ascii_uppercase) c of Some u \<Rightarrow> u | None \<Rightarrow> c)"

definition py_upper :: "string \<Rightarrow> string" where
  "py_upper s = map py_upper_char s"

text \<open>\<open>str(n)\<close> for a Python int: decimal digits, with a sign for a negative number.\<close>

fun str_nat :: "nat \<Rightarrow> string" where
  "str_nat n =
     (if n < 10 then [''0123456789'' ! n]
      else str_nat (n div 10) @ [''0123456789'' ! (n mod 10)])"

declare str_nat.simps [simp del]

definition str_int :: "int \<Rightarrow> string" where
  "str_int i = (if i < 0 then CHR ''-'' # str_nat (nat (- i)) else str_nat (nat i))"

text \<open>\<open>sep.join(parts)\<close>.\<close>

fun join :: "string \<Rightarrow> string list \<Rightarrow> string" where
  "join sep [] = []"
| "join sep [x] = x"
| "join sep (x # y # ys) = x @ sep @ join sep (y # ys)"

subsection \<open>Operations on decoded JSON that can raise\<close>

record response =
  status_code :: nat
  status_message :: string
  resp_content :: "byte list"
  resp_text :: string
  resp_json :: "string + json"

text \<open>
  A \<open>response\<close> is an \<open>httpx.Response\<close>: \<open>status_code\<close>, the raw body \<open>content\<close>, the
  body decoded as \<open>text\<close>, and what \<open>json()\<close> gives (\<open>Inl\<close> the message of the decoding
  error it raises). \<open>status_message\<close> is the message \<open>raise_for_status()\<close> gives the
  \<open>HTTPStatusError\<close> it raises for this response (httpx composes it from the status
  line and the URL).
\<close>

datatype error =
    ValueError string
  | HTTPStatusError string response
  | RequestError string
  | JSONDecodeError string
  | AttributeError string
  | TypeError string
  | KeyError string
  | OverflowError string

text \<open>\<open>str(e)\<close>, as the f-strings of the \<open>except\<close> clauses print it.\<close>

fun str_error :: "error \<Rightarrow> string" where
  "str_error (ValueError m) = m"
| "str_error (HTTPStatusError m r) = m"
| "str_error (RequestError m) = m"
| "str_error (JSONDecodeError m) = m"
| "str_error (AttributeError m) = m"
| "str_error (TypeError m) = m"
| "str_error (KeyError m) = m"
| "str_error (OverflowError m) = m"

fun py_type :: "json \<Rightarrow> string" where
  "py_type JNull = ''NoneType''"
| "py_type (JBool b) = ''bool''"
| "py_type (JNum n) = ''int''"
| "py_type (JStr s) = ''str''"
| "py_type (JArr xs) = ''list''"
| "py_type (JObj kvs) = ''dict''"

definition no_attribute :: "json \<Rightarrow> string \<Rightarrow> error" where
  "no_attribute v a =
     AttributeError (quoted (py_type v) @ '' object has no attribute '' @ quoted a)"

text \<open>\<open>d.get(k, default)\<close>: only a dict has the method.\<close>

fun py_get :: "json \<Rightarrow> string \<Rightarrow> json \<Rightarrow> error + json" where
  "py_get (JObj kvs) k dflt = Inr (case map_of kvs k of Some v \<Rightarrow> v | None \<Rightarrow> dflt)"
| "py_get v k dflt = Inl (no_attribute v ''get'')"

text \<open>\<open>len(v)\<close>.\<close>

fun py_len :: "json \<Rightarrow> error + nat" where
  "py_len (JArr xs) = Inr (length xs)"
| "py_len (JStr s) = Inr (length s)"
| "py_len (JObj kvs) = Inr (length kvs)"
| "py_len v = Inl (TypeError (''object of type '' @ quoted (py_type v) @ '' has no len()''))"

text \<open>
  \<open>k in v\<close> for a string \<open>k\<close>: a key of a dict, an element of a list, a substring of
  a string; any other value is not iterable.
\<close>

fun py_in :: "string \<Rightarrow> json \<Rightarrow> error + bool" where
  "py_in k (JObj kvs) = Inr (k \<in> set (map fst kvs))"
| "py_in k (JArr xs) = Inr (JStr k \<in> set xs)"
| "py_in k (JStr s) = Inr (sublist k s)"
| "py_in k v =
     Inl (TypeError (''argument of type '' @ quoted (py_type v) @ '' is not iterable''))"

text \<open>\<open>d[k] = v\<close> on a dict: an existing key keeps its place, a new one goes last.\<close>

fun py_setitem :: "(string \<times> json) list \<Rightarrow> string \<Rightarrow> json \<Rightarrow> (string \<times> json) list" where
  "py_setitem [] k v = [(k, v)]"
| "py_setitem ((k', v') # kvs) k v =
     (if k' = k then (k, v) # kvs else (k', v') # py_setitem kvs k v)"

section \<open>The HTTP client and the upstream API\<close>

datatype http_method = GET | POST

datatype param = PInt int | PStr string

record request =
  req_method :: http_method
  req_url :: string
  req_params :: "(string \<times> param) list"
  req_headers :: "(string \<times> string) list"
  req_json :: "json option"
  req_timeout :: nat

text \<open>
  The network answers a request with a response, or the client raises (connection
  refused, timeout): \<open>Refused\<close> carries the text of that exception.
\<close>

datatype reply = Refused string | Answer response

type_synonym upstream = "request \<Rightarrow> reply"

text \<open>\<open>response.raise_for_status()\<close>: any status outside 2xx raises.\<close>

definition raise_for_status :: "response \<Rightarrow> error + response" where
  "raise_for_status r =
     (if 200 \<le> status_code r \<and> status_code r < 300 then Inr r
      else Inl (HTTPStatusError (status_message r) r))"

text \<open>The request, \<open>raise_for_status()\<close>, then the body as the tool reads it.\<close>

definition request_ok :: "upstream \<Rightarrow> request \<Rightarrow> error + response" where
  "request_ok net req =
     (case net req of
        Refused m \<Rightarrow> Inl (RequestError m)
      | Answer r \<Rightarrow> raise_for_status r)"

definition response_json :: "response \<Rightarrow> error + json" where
  "response_json r =
     (case resp_json r of Inl m \<Rightarrow> Inl (JSONDecodeError m) | Inr d \<Rightarrow> Inr d)"

definition fetch_json :: "upstream \<Rightarrow> request \<Rightarrow> error + json" where
  "fetch_json net req =
     (case request_ok net req of Inl e \<Rightarrow> Inl e | Inr r \<Rightarrow> response_json r)"

section \<open>What a tool call does\<close>

text \<open>
  A call issues requests (\<open>sent\<close>, in order), reports error messages (\<open>reports\<close>: each
  call of \<open>ctx.error\<close> or \<open>logger.error\<close>, with the sink it went to), and returns a
  value or raises (\<open>result\<close>, \<open>Inl\<close> the exception). Informational log lines are not
  recorded; the expressions they evaluate are, since they can raise.
\<close>

datatype sink = Ctx | Logger

record run =
  sent :: "request list"
  reports :: "(sink \<times> string) list"
  result :: "error + json"

definition sink_of :: "bool \<Rightarrow> sink" where
  "sink_of ctx = (if ctx then Ctx else Logger)"

text \<open>\<open>if not API_KEY\<close>: the key is \<open>None\<close> (variable unset) or the empty string.\<close>

fun key_missing :: "string option \<Rightarrow> bool" where
  "key_missing None = True"
| "key_missing (Some k) = (k = [])"

definition key_header :: "string option \<Rightarrow> string" where
  "key_header API_KEY = (case API_KEY of Some k \<Rightarrow> k | None \<Rightarrow> [])"

definition KEY_NOT_FOUND :: string where
  "KEY_NOT_FOUND = ''GOVINFO_API_KEY not found in environment variables''"

text \<open>The error message is reported, then the exception is raised; nothing was sent.\<close>

definition report_and_raise :: "bool \<Rightarrow> string \<Rightarrow> error \<Rightarrow> run" where
  "report_and_raise ctx msg e =
     \<lparr>sent = [], reports = [(sink_of ctx, msg)], result = Inl e\<rparr>"

text \<open>
  The two \<open>except\<close> clauses around every request. The packages, collections,
  published, related and search tools print the exception itself for an
  \<open>HTTPStatusError\<close>; the statutes tools print the status code and the body.
\<close>

definition http_error_msg :: "error \<Rightarrow> string" where
  "http_error_msg e = ''HTTP error: '' @ str_error e"

fun statutes_http_error_msg :: "error \<Rightarrow> string" where
  "statutes_http_error_msg (HTTPStatusError m r) =
     ''HTTP error: '' @ str_nat (status_code r) @ '' - '' @ resp_text r"
| "statutes_http_error_msg e = ''HTTP error: '' @ str_error e"

fun is_http_status_error :: "error \<Rightarrow> bool" where
  "is_http_status_error (HTTPStatusError m r) = True"
| "is_http_status_error e = False"

definition caught :: "bool \<Rightarrow> request \<Rightarrow> string \<Rightarrow> error \<Rightarrow> run" where
  "caught ctx req label e =
     \<lparr>sent = [req],
      reports = [(sink_of ctx,
        if is_http_status_error e then http_error_msg e else label @ str_error e)],
      result = Inl e\<rparr>"

definition statutes_caught :: "bool \<Rightarrow> request \<Rightarrow> string \<Rightarrow> error \<Rightarrow> run" where
  "statutes_caught ctx req label e =
     \<lparr>sent = [req],
      reports = [(sink_of ctx,
        if is_http_status_error e then statutes_http_error_msg e else label @ str_error e)],
      result = Inl e\<rparr>"

definition returned :: "request \<Rightarrow> json \<Rightarrow> run" where
  "returned req v = \<lparr>sent = [req], reports = [], result = Inr v\<rparr>"

text \<open>The \<open>query\<close> of the JSON body a request carries, if it carries one.\<close>

definition sent_query :: "request \<Rightarrow> json option" where
  "sent_query req =
     (case req_json req of
        Some (JObj kvs) \<Rightarrow> map_of kvs ''query''
      | _ \<Rightarrow> None)"


definition get_request :: "string option \<Rightarrow> string \<Rightarrow> (string \<times> param) list \<Rightarrow> nat \<Rightarrow> request" where
  "get_request API_KEY u ps t =
     \<lparr>req_method = GET, req_url = u, req_params = ps,
      req_headers = [(''X-Api-Key'', key_header API_KEY)],
      req_json = None, req_timeout = t\<rparr>"

definition search_request :: "string option \<Rightarrow> json \<Rightarrow> request" where
  "search_request API_KEY body =
     \<lparr>req_method = POST, req_url = ''https://api.govinfo.gov/search'', req_params = [],
      req_headers = [(''X-Api-Key'', key_header API_KEY), (''Content-Type'', ''application/json'')],
      req_json = Some body, req_timeout = 30\<rparr>"

text \<open>
  The body of a \<open>try\<close> that reads JSON: the request, \<open>raise_for_status()\<close>, \<open>json()\<close>,
  then \<open>after\<close> (what the tool does with the data before it returns it). Whatever
  raises on the way reaches the \<open>except\<close> clauses.
\<close>

definition try_json :: "bool \<Rightarrow> upstream \<Rightarrow> request \<Rightarrow> string \<Rightarrow> (json \<Rightarrow> error + json) \<Rightarrow> run" where
  "try_json ctx net req label after =
     (case fetch_json net req of
        Inl e \<Rightarrow> caught ctx req label e
      | Inr data \<Rightarrow>
          (case after data of
             Inl e \<Rightarrow> caught ctx req label e
           | Inr data' \<Rightarrow> returned req data'))"

definition statutes_try_json :: "bool \<Rightarrow> upstream \<Rightarrow> request \<Rightarrow> string \<Rightarrow> (json \<Rightarrow> error + json) \<Rightarrow> run" where
  "statutes_try_json ctx net req label after =
     (case fetch_json net req of
        Inl e \<Rightarrow> statutes_caught ctx req label e
      | Inr data \<Rightarrow>
          (case after data of
             Inl e \<Rightarrow> statutes_caught ctx req label e
           | Inr data' \<Rightarrow> returned req data'))"

text \<open>\<open>f"Found {len(data.get(k, []))} ..."\<close>, then \<open>return data\<close>.\<close>

definition counted :: "string \<Rightarrow> json \<Rightarrow> error + json" where
  "counted k data =
     (case py_get data k (JArr []) of
        Inl e \<Rightarrow> Inl e
      | Inr v \<Rightarrow> (case py_len v of Inl e \<Rightarrow> Inl e | Inr n \<Rightarrow> Inr data))"

text \<open>\<open>f"Found {data.get('count', 0)} ..."\<close>, then \<open>return data\<close>.\<close>

definition count_logged :: "json \<Rightarrow> error + json" where
  "count_logged data =
     (case py_get data ''count'' (JNum 0) of Inl e \<Rightarrow> Inl e | Inr v \<Rightarrow> Inr data)"

section \<open>Collections, published and related tools\<close>

definition page_params :: "int \<Rightarrow> string \<Rightarrow> (string \<times> param) list" where
  "page_params page_size offset_mark =
     [(''pageSize'', PInt page_size), (''offsetMark'', PStr offset_mark)]"

definition get_collections :: "string option \<Rightarrow> upstream \<Rightarrow> int \<Rightarrow> string \<Rightarrow> bool \<Rightarrow> run" where
  "get_collections API_KEY net page_size offset_mark ctx =
     (if key_missing API_KEY then report_and_raise ctx KEY_NOT_FOUND (ValueError KEY_NOT_FOUND)
      else
        let params = page_params page_size offset_mark;
            req = get_request API_KEY ''https://api.govinfo.gov/collections'' params 30
        in try_json ctx net req ''Collections fetch error: '' (counted ''collections''))"

definition get_published_packages ::
  "string option \<Rightarrow> upstream \<Rightarrow> string \<Rightarrow> string \<Rightarrow> string \<Rightarrow> int \<Rightarrow> string \<Rightarrow> bool \<Rightarrow> run" where
  "get_published_packages API_KEY net date_issued collection doc_class page_size offset_mark ctx =
     (if key_missing API_KEY then report_and_raise ctx KEY_NOT_FOUND (ValueError KEY_NOT_FOUND)
      else
        let params = page_params page_size offset_mark
              @ (if collection \<noteq> [] then [(''collection'', PStr collection)] else [])
              @ (if doc_class \<noteq> [] then [(''docClass'', PStr doc_class)] else []);
            req = get_request API_KEY (''https://api.govinfo.gov/published/'' @ date_issued) params 30
        in try_json ctx net req ''Published packages fetch error: '' (counted ''packages''))"

definition get_published_range ::
  "string option \<Rightarrow> upstream \<Rightarrow> string \<Rightarrow> string \<Rightarrow> string \<Rightarrow> string \<Rightarrow> string \<Rightarrow> int \<Rightarrow> string
     \<Rightarrow> bool \<Rightarrow> run" where
  "get_published_range API_KEY net start_date end_date collection doc_class modified_since
       page_size offset_mark ctx =
     (if key_missing API_KEY then report_and_raise ctx KEY_NOT_FOUND (ValueError KEY_NOT_FOUND)
      else
        let params = page_params page_size offset_mark @ [(''collection'', PStr collection)]
              @ (if doc_class \<noteq> [] then [(''docClass'', PStr doc_class)] else [])
              @ (if modified_since \<noteq> [] then [(''modifiedSince'', PStr modified_since)] else []);
            req = get_request API_KEY
              (''https://api.govinfo.gov/published/'' @ start_date @ ''/'' @ end_date) params 30
        in try_json ctx net req ''Published range fetch error: '' (counted ''packages''))"

text \<open>
  \<open>get_related_packages\<close> does not raise on a missing key: it reports the message
  and returns \<open>{"error": error_msg}\<close>.
\<close>

definition get_related_packages :: "string option \<Rightarrow> upstream \<Rightarrow> string \<Rightarrow> bool \<Rightarrow> run" where
  "get_related_packages API_KEY net package_id ctx =
     (if key_missing API_KEY then
        \<lparr>sent = [], reports = [(sink_of ctx, KEY_NOT_FOUND)],
         result = Inr (JObj [(''error'', JStr KEY_NOT_FOUND)])\<rparr>
      else
        let req = get_request API_KEY (''https://api.govinfo.gov/related/'' @ package_id) [] 30
        in try_json ctx net req ''Related packages fetch error: '' (counted ''relatedPackages''))"

definition get_granule_related :: "string option \<Rightarrow> upstream \<Rightarrow> string \<Rightarrow> string \<Rightarrow> bool \<Rightarrow> run" where
  "get_granule_related API_KEY net package_id granule_id ctx =
     (if key_missing API_KEY then report_and_raise ctx KEY_NOT_FOUND (ValueError KEY_NOT_FOUND)
      else
        let req = get_request API_KEY (''https://api.govinfo.gov/related/'' @ granule_id) [] 30
        in try_json ctx net req ''Granule related fetch error: '' Inr)"

section \<open>Search tools\<close>

definition score_desc :: json where
  "score_desc = JArr [JObj [(''field'', JStr ''score''), (''sortOrder'', JStr ''DESC'')]]"

definition search_packages ::
  "string option \<Rightarrow> upstream \<Rightarrow> string \<Rightarrow> string \<Rightarrow> int option \<Rightarrow> string \<Rightarrow> string \<Rightarrow> string \<Rightarrow> string
     \<Rightarrow> int \<Rightarrow> string \<Rightarrow> bool \<Rightarrow> run" where
  \<open>search_packages API_KEY net query collection congress doc_class title start_date end_date
       page_size offset_mark ctx =
     (if key_missing API_KEY then report_and_raise ctx KEY_NOT_FOUND (ValueError KEY_NOT_FOUND)
      else
        let search_query = query;
            search_query =
              (if collection \<noteq> [] then ''collection:'' @ collection @ '' AND '' @ search_query
               else search_query);
            search_query =
              (case congress of
                 Some n \<Rightarrow> ''congress:'' @ str_int n @ '' AND '' @ search_query
               | None \<Rightarrow> search_query);
            search_query =
              (if doc_class \<noteq> [] then ''docClass:'' @ doc_class @ '' AND '' @ search_query
               else search_query);
            search_query =
              (if title \<noteq> [] then ''title:"'' @ title @ ''" AND '' @ search_query
               else search_query);
            search_query =
              (if start_date \<noteq> [] then ''publishdate:>='' @ start_date @ '' AND '' @ search_query
               else search_query);
            search_query =
              (if end_date \<noteq> [] then ''publishdate:<='' @ end_date @ '' AND '' @ search_query
               else search_query);
            request_body = JObj
              [(''query'', JStr search_query),
               (''pageSize'', JNum page_size),
               (''offsetMark'', JStr offset_mark),
               (''resultLevel'', JStr ''default''),
               (''sorts'', score_desc)];
            req = search_request API_KEY request_body
        in try_json ctx net req ''Search error: '' count_logged)\<close>

text \<open>
  \<open>advanced_search\<close> sends the caller's query as it is: the list-valued filters, the
  date bounds and the count filters are accepted and not used.
\<close>

definition advanced_search ::
  "string option \<Rightarrow> upstream \<Rightarrow> string \<Rightarrow> string list \<Rightarrow> int list \<Rightarrow> string list \<Rightarrow> string list
     \<Rightarrow> string \<Rightarrow> string \<Rightarrow> string \<Rightarrow> string \<Rightarrow> int option \<Rightarrow> int option \<Rightarrow> string \<Rightarrow> string
     \<Rightarrow> int \<Rightarrow> string \<Rightarrow> bool \<Rightarrow> run" where
  "advanced_search API_KEY net query collections congress doc_class committees
       date_issued_start date_issued_end last_modified_start last_modified_end
       package_count granule_count sort_by sort_order page_size offset_mark ctx =
     (if key_missing API_KEY then report_and_raise ctx KEY_NOT_FOUND (ValueError KEY_NOT_FOUND)
      else
        let body = JObj
              [(''query'', JStr query),
               (''pageSize'', JStr (str_int page_size)),
               (''offsetMark'', JStr offset_mark),
               (''sorts'', JArr [JObj
                  [(''field'', JStr (if sort_by = ''relevance'' then ''score'' else sort_by)),
                   (''sortOrder'', JStr (py_upper sort_order))]]),
               (''resultLevel'', JStr ''default'')];
            req = search_request API_KEY body
        in try_json ctx net req ''Advanced search error: '' count_logged)"


section \<open>Statutes tools\<close>

definition STATUTE_COLLECTIONS :: "(string \<times> string) list" where
  "STATUTE_COLLECTIONS =
     [(''USCODE'', ''United States Code''),
      (''STATUTE'', ''Statutes at Large''),
      (''PLAW'', ''Public and Private Laws''),
      (''COMPS'', ''Statutes Compilations'')]"

text \<open>Iterating over a decoded value, as a comprehension does.\<close>

fun py_iter :: "json \<Rightarrow> error + json list" where
  "py_iter (JArr xs) = Inr xs"
| "py_iter (JObj kvs) = Inr (map (\<lambda>kv. JStr (fst kv)) kvs)"
| "py_iter (JStr s) = Inr (map (\<lambda>c. JStr [c]) s)"
| "py_iter v = Inl (TypeError (quoted (py_type v) @ '' object is not iterable''))"

text \<open>
  \<open>v in STATUTE_COLLECTIONS\<close>: the dict hashes \<open>v\<close>, so a list or a dict raises; a
  string is looked up among the keys; nothing else equals a key.
\<close>

fun in_keys :: "json \<Rightarrow> (string \<times> string) list \<Rightarrow> error + bool" where
  "in_keys (JStr s) d = Inr (s \<in> set (map fst d))"
| "in_keys (JArr xs) d = Inl (TypeError (''unhashable type: '' @ quoted ''list''))"
| "in_keys (JObj kvs) d = Inl (TypeError (''unhashable type: '' @ quoted ''dict''))"
| "in_keys v d = Inr False"

text \<open>
  The comprehension
  \<open>[result for result in ... if result.get("collectionCode") in STATUTE_COLLECTIONS]\<close>,
  element by element: the first element that raises ends it.
\<close>

fun keep_statutes :: "json list \<Rightarrow> error + json list" where
  "keep_statutes [] = Inr []"
| "keep_statutes (r # rs) =
     (case py_get r ''collectionCode'' JNull of
        Inl e \<Rightarrow> Inl e
      | Inr code \<Rightarrow>
          (case in_keys code STATUTE_COLLECTIONS of
             Inl e \<Rightarrow> Inl e
           | Inr hit \<Rightarrow>
               (case keep_statutes rs of
                  Inl e \<Rightarrow> Inl e
                | Inr kept \<Rightarrow> Inr (if hit then r # kept else kept))))"

text \<open>
  What \<open>search_statutes\<close> does with the decoded response: the client-side filter when
  no collection was asked for and the data has \<open>"results"\<close>, then the count it logs.
\<close>

definition filter_results :: "string \<Rightarrow> json \<Rightarrow> error + json" where
  "filter_results collection data =
     (if collection \<noteq> [] then Inr data
      else
        case py_in ''results'' data of
          Inl e \<Rightarrow> Inl e
        | Inr has_results \<Rightarrow>
            if \<not> has_results then Inr data
            else
              (case data of
                 JObj kvs \<Rightarrow>
                   (case py_get data ''results'' (JArr []) of
                      Inl e \<Rightarrow> Inl e
                    | Inr rs \<Rightarrow>
                        (case py_iter rs of
                           Inl e \<Rightarrow> Inl e
                         | Inr items \<Rightarrow>
                             (case keep_statutes items of
                                Inl e \<Rightarrow> Inl e
                              | Inr kept \<Rightarrow>
                                  Inr (JObj (py_setitem
                                    (py_setitem kvs ''results'' (JArr kept))
                                    ''count'' (JNum (int (length kept))))))))
               | _ \<Rightarrow> Inl (no_attribute data ''get'')))"

definition statutes_after :: "string \<Rightarrow> json \<Rightarrow> error + json" where
  "statutes_after collection data =
     (case filter_results collection data of
        Inl e \<Rightarrow> Inl e
      | Inr data' \<Rightarrow> count_logged data')"

definition statutes_body :: "string \<Rightarrow> int \<Rightarrow> string \<Rightarrow> string \<Rightarrow> string \<Rightarrow> json" where
  "statutes_body search_query page_size offset_mark field sort_order =
     JObj
       [(''query'', JStr search_query),
        (''pageSize'', JNum page_size),
        (''offsetMark'', JStr offset_mark),
        (''sorts'', JArr [JObj [(''field'', JStr field), (''sortOrder'', JStr sort_order)]])]"

definition search_statutes ::
  "string option \<Rightarrow> upstream \<Rightarrow> string \<Rightarrow> string \<Rightarrow> int option \<Rightarrow> string \<Rightarrow> string \<Rightarrow> string \<Rightarrow> string
     \<Rightarrow> int \<Rightarrow> string \<Rightarrow> bool \<Rightarrow> run" where
  "search_statutes API_KEY net query collection congress title_number section_no start_date
       end_date page_size offset_mark ctx =
     (if key_missing API_KEY then report_and_raise ctx KEY_NOT_FOUND (ValueError KEY_NOT_FOUND)
      else if collection \<noteq> [] \<and> collection \<notin> set (map fst STATUTE_COLLECTIONS) then
        (let msg = ''Invalid collection '' @ quoted collection @ ''. Must be one of: ''
               @ join '', '' (map fst STATUTE_COLLECTIONS)
         in report_and_raise ctx msg (ValueError msg))
      else
        let search_query =
              (if collection \<noteq> [] then ''collection:'' @ collection @ '' AND ('' @ query @ '')''
               else
                 let collections_query =
                       join '' OR '' (map (\<lambda>code. ''collection:'' @ code) (map fst STATUTE_COLLECTIONS))
                 in ''('' @ collections_query @ '') AND ('' @ query @ '')'');
            search_query =
              (case congress of
                 Some n \<Rightarrow> search_query @ '' AND congress:'' @ str_int n
               | None \<Rightarrow> search_query);
            search_query =
              (if title_number \<noteq> [] then search_query @ '' AND title:'' @ title_number
               else search_query);
            search_query =
              (if section_no \<noteq> [] then search_query @ '' AND section:'' @ section_no
               else search_query);
            search_query =
              (if start_date \<noteq> [] then search_query @ '' AND publishdate:['' @ start_date @ '' TO *]''
               else search_query);
            search_query =
              (if end_date \<noteq> [] then search_query @ '' AND publishdate:[* TO '' @ end_date @ '']''
               else search_query);
            request_body = statutes_body search_query page_size offset_mark ''score'' ''DESC'';
            req = search_request API_KEY request_body
        in statutes_try_json ctx net req ''Search error: '' (statutes_after collection))"

definition get_uscode_title ::
  "string option \<Rightarrow> upstream \<Rightarrow> string \<Rightarrow> string \<Rightarrow> string \<Rightarrow> string \<Rightarrow> int \<Rightarrow> string \<Rightarrow> bool \<Rightarrow> run" where
  "get_uscode_title API_KEY net title_number edition chapter section_no page_size offset_mark ctx =
     (if key_missing API_KEY then
        report_and_raise ctx ''GOVINFO_API_KEY not set'' (ValueError ''GOVINFO_API_KEY not set'')
      else
        let search_query = ''collection:USCODE AND title:'' @ title_number;
            search_query =
              (if edition \<noteq> [] then search_query @ '' AND publishdate:'' @ edition
               else search_query);
            search_query =
              (if chapter \<noteq> [] then search_query @ '' AND chapter:'' @ chapter
               else search_query);
            search_query =
              (if section_no \<noteq> [] then search_query @ '' AND section:'' @ section_no
               else search_query);
            request_body = statutes_body search_query page_size offset_mark ''title'' ''ASC'';
            req = search_request API_KEY request_body
        in statutes_try_json ctx net req ''USC title search error: '' count_logged)"

definition get_public_laws_by_congress ::
  "string option \<Rightarrow> upstream \<Rightarrow> int \<Rightarrow> string \<Rightarrow> string \<Rightarrow> string \<Rightarrow> string \<Rightarrow> int \<Rightarrow> string \<Rightarrow> bool
     \<Rightarrow> run" where
  "get_public_laws_by_congress API_KEY net congress law_type law_number start_date end_date
       page_size offset_mark ctx =
     (if key_missing API_KEY then report_and_raise ctx KEY_NOT_FOUND (ValueError KEY_NOT_FOUND)
      else
        let search_query = ''collection:PLAW AND congress:'' @ str_int congress
        in
          case
            (if law_type \<noteq> [] then
               (if py_lower law_type = ''public'' then
                  Inr (search_query @ '' AND (docClass:public OR title:public)'')
                else if py_lower law_type = ''private'' then
                  Inr (search_query @ '' AND (docClass:private OR title:private)'')
                else
                  Inl (''Invalid law_type '' @ quoted law_type @ ''. Must be ''
                    @ quoted ''public'' @ '' or '' @ quoted ''private''))
             else Inr search_query)
          of
            Inl msg \<Rightarrow> report_and_raise ctx msg (ValueError msg)
          | Inr search_query \<Rightarrow>
              let search_query =
                    (if law_number \<noteq> [] then search_query @ '' AND '' @ law_number
                     else search_query);
                  search_query =
                    (if start_date \<noteq> [] then
                       search_query @ '' AND publishdate:['' @ start_date @ '' TO *]''
                     else search_query);
                  search_query =
                    (if end_date \<noteq> [] then
                       search_query @ '' AND publishdate:[* TO '' @ end_date @ '']''
                     else search_query);
                  request_body =
                    statutes_body search_query page_size offset_mark ''publishdate'' ''DESC'';
                  req = search_request API_KEY request_body
              in statutes_try_json ctx net req ''Congress laws search error: '' count_logged)"

definition get_statutes_at_large ::
  "string option \<Rightarrow> upstream \<Rightarrow> string \<Rightarrow> string \<Rightarrow> int option \<Rightarrow> int \<Rightarrow> string \<Rightarrow> bool \<Rightarrow> run" where
  "get_statutes_at_large API_KEY net volume page congress page_size offset_mark ctx =
     (if key_missing API_KEY then report_and_raise ctx KEY_NOT_FOUND (ValueError KEY_NOT_FOUND)
      else
        let search_query = ''collection:STATUTE AND '' @ volume;
            search_query =
              (if page \<noteq> [] then search_query @ '' AND '' @ page else search_query);
            search_query =
              (case congress of
                 Some n \<Rightarrow> search_query @ '' AND congress:'' @ str_int n
               | None \<Rightarrow> search_query);
            request_body = statutes_body search_query page_size offset_mark ''title'' ''ASC'';
            req = search_request API_KEY request_body
        in statutes_try_json ctx net req ''Statutes at Large search error: '' count_logged)"

text \<open>\<open>v[k]\<close> for a string \<open>k\<close>.\<close>

fun py_getitem :: "json \<Rightarrow> string \<Rightarrow> error + json" where
  "py_getitem (JObj kvs) k =
     (case map_of kvs k of Some v \<Rightarrow> Inr v | None \<Rightarrow> Inl (KeyError (quoted k)))"
| "py_getitem (JArr xs) k =
     Inl (TypeError ''list indices must be integers or slices, not str'')"
| "py_getitem (JStr s) k =
     Inl (TypeError (''string indices must be integers, not '' @ quoted ''str''))"
| "py_getitem v k = Inl (TypeError (quoted (py_type v) @ '' object is not subscriptable''))"

definition content_key_map :: "(string \<times> string) list" where
  "content_key_map = [(''xml'', ''xmlLink''), (''pdf'', ''pdfLink''), (''text'', ''txtLink'')]"

text \<open>
  What \<open>get_statute_content\<close> does with the summary: for a content type other than
  \<open>summary\<close>, the matching download link is attached when the summary declares it.
\<close>

definition attach_download :: "string \<Rightarrow> json \<Rightarrow> error + json" where
  "attach_download content_type data =
     (if content_type = ''summary'' then Inr data
      else
        case py_in ''download'' data of
          Inl e \<Rightarrow> Inl e
        | Inr has_download \<Rightarrow>
            if \<not> has_download then Inr data
            else
              (case data of
                 JObj kvs \<Rightarrow>
                   (case py_get data ''download'' (JObj []) of
                      Inl e \<Rightarrow> Inl e
                    | Inr download_links \<Rightarrow>
                        (case map_of content_key_map content_type of
                           None \<Rightarrow> Inr data
                         | Some content_key \<Rightarrow>
                             (case py_in content_key download_links of
                                Inl e \<Rightarrow> Inl e
                              | Inr has_link \<Rightarrow>
                                  if \<not> has_link then Inr data
                                  else
                                    (case py_getitem download_links content_key of
                                       Inl e \<Rightarrow> Inl e
                                     | Inr link \<Rightarrow>
                                         Inr (JObj (py_setitem
                                           (py_setitem kvs ''requested_content_url'' link)
                                           ''content_type'' (JStr content_type)))))))
               | _ \<Rightarrow> Inl (no_attribute data ''get'')))"

definition valid_types :: "string list" where
  "valid_types = [''summary'', ''xml'', ''pdf'', ''text'']"

definition get_statute_content ::
  "string option \<Rightarrow> upstream \<Rightarrow> string \<Rightarrow> string \<Rightarrow> string \<Rightarrow> bool \<Rightarrow> run" where
  "get_statute_content API_KEY net package_id content_type granule_id ctx =
     (if key_missing API_KEY then report_and_raise ctx KEY_NOT_FOUND (ValueError KEY_NOT_FOUND)
      else if content_type \<notin> set valid_types then
        (let msg = ''Invalid content_type '' @ quoted content_type @ ''. Must be one of: ''
               @ join '', '' valid_types
         in report_and_raise ctx msg (ValueError msg))
      else
        let url =
              (if granule_id \<noteq> [] then
                 ''https://api.govinfo.gov/packages/'' @ package_id @ ''/granules/'' @ granule_id
                   @ ''/summary''
               else ''https://api.govinfo.gov/packages/'' @ package_id @ ''/summary'');
            req = get_request API_KEY url [] 30
        in statutes_try_json ctx net req ''Content retrieval error: '' (attach_download content_type))"


section \<open>Packages tools\<close>

subsection \<open>Dates: \<open>datetime.now(UTC) - timedelta(days=365)\<close> and \<open>strftime\<close>\<close>

text \<open>
  A \<open>datetime\<close> as the standard library holds it (the microseconds, which neither the
  subtraction of whole days nor the format touches, are left out). The library
  subtracts days on the proleptic Gregorian ordinal of the date: \<open>ymd2ord\<close> and
  \<open>ord2ymd\<close> are its \<open>_ymd2ord\<close> and \<open>_ord2ymd\<close>.
\<close>

record datetime =
  dt_year :: nat
  dt_month :: nat
  dt_day :: nat
  dt_hour :: nat
  dt_minute :: nat
  dt_second :: nat

definition is_leap :: "nat \<Rightarrow> bool" where
  "is_leap year = (year mod 4 = 0 \<and> (year mod 100 \<noteq> 0 \<or> year mod 400 = 0))"

definition DAYS_IN_MONTH :: "nat list" where
  "DAYS_IN_MONTH = [0, 31, 28, 31, 30, 31, 30, 31, 31, 30, 31, 30, 31]"

definition DAYS_BEFORE_MONTH :: "nat list" where
  "DAYS_BEFORE_MONTH = [0, 0, 31, 59, 90, 120, 151, 181, 212, 243, 273, 304, 334]"

definition days_before_year :: "nat \<Rightarrow> nat" where
  "days_before_year year =
     (let y = year - 1 in y * 365 + y div 4 - y div 100 + y div 400)"

definition days_before_month :: "nat \<Rightarrow> nat \<Rightarrow> nat" where
  "days_before_month year month =
     DAYS_BEFORE_MONTH ! month + (if month > 2 \<and> is_leap year then 1 else 0)"

definition ymd2ord :: "nat \<Rightarrow> nat \<Rightarrow> nat \<Rightarrow> nat" where
  "ymd2ord year month day = days_before_year year + days_before_month year month + day"

definition ord2ymd :: "nat \<Rightarrow> nat \<times> nat \<times> nat" where
  "ord2ymd ordinal =
     (let n = ordinal - 1;
          n400 = n div 146097; n = n mod 146097;
          year = n400 * 400 + 1;
          n100 = n div 36524; n = n mod 36524;
          n4 = n div 1461; n = n mod 1461;
          n1 = n div 365; n = n mod 365;
          year = year + n100 * 100 + n4 * 4 + n1
      in
        if n1 = 4 \<or> n100 = 4 then (year - 1, 12, 31)
        else
          let leapyear = (n1 = 3 \<and> (n4 \<noteq> 24 \<or> n100 = 3));
              month = (n + 50) div 32;
              preceding = DAYS_BEFORE_MONTH ! month + (if month > 2 \<and> leapyear then 1 else 0)
          in
            if preceding > n then
              (let month = month - 1;
                   preceding = preceding - (DAYS_IN_MONTH ! month + (if month = 2 \<and> leapyear then 1 else 0))
               in (year, month, n - preceding + 1))
            else (year, month, n - preceding + 1))"

definition MAXORDINAL :: int where
  "MAXORDINAL = 3652059"

text \<open>
  \<open>dt - timedelta(days=k)\<close>: the date and the time of day become one \<open>timedelta\<close>,
  the days are subtracted, and the result is split again; a date before year 1 or
  after year 9999 raises \<open>OverflowError\<close>.
\<close>

definition minus_days :: "datetime \<Rightarrow> nat \<Rightarrow> error + datetime" where
  "minus_days dt k =
     (let total = dt_hour dt * 3600 + dt_minute dt * 60 + dt_second dt;
          days = int (ymd2ord (dt_year dt) (dt_month dt) (dt_day dt)) + int (total div 86400) - int k;
          seconds = total mod 86400;
          hour = seconds div 3600;
          rem = seconds mod 3600;
          minute = rem div 60;
          second = rem mod 60
      in
        if 0 < days \<and> days \<le> MAXORDINAL then
          (case ord2ymd (nat days) of
             (y, m, d) \<Rightarrow>
               Inr \<lparr>dt_year = y, dt_month = m, dt_day = d,
                    dt_hour = hour, dt_minute = minute, dt_second = second\<rparr>)
        else Inl (OverflowError ''date value out of range''))"

definition zfill :: "nat \<Rightarrow> string \<Rightarrow> string" where
  "zfill width s = replicate (width - length s) CHR ''0'' @ s"

text \<open>\<open>dt.strftime("%Y-%m-%dT%H:%M:%SZ")\<close>, every field zero-padded to its width.\<close>

definition strftime_iso :: "datetime \<Rightarrow> string" where
  "strftime_iso dt =
     zfill 4 (str_nat (dt_year dt)) @ ''-'' @ zfill 2 (str_nat (dt_month dt)) @ ''-''
       @ zfill 2 (str_nat (dt_day dt)) @ ''T'' @ zfill 2 (str_nat (dt_hour dt)) @ '':''
       @ zfill 2 (str_nat (dt_minute dt)) @ '':'' @ zfill 2 (str_nat (dt_second dt)) @ ''Z''"

subsection \<open>Base64 (RFC 4648), as \<open>base64.b64encode\<close> and a strict decoder\<close>

definition b64_alphabet :: string where
  "b64_alphabet = ''ABCDEFGHIJKLMNOPQRSTUVWXYZabcdefghijklmnopqrstuvwxyz0123456789+/''"

definition b64_char :: "nat \<Rightarrow> char" where
  "b64_char n = b64_alphabet ! (n mod 64)"

definition b64_index :: "char \<Rightarrow> nat option" where
  "b64_index c = map_of (zip b64_alphabet [0..<64]) c"

fun b64encode :: "byte list \<Rightarrow> string" where
  "b64encode [] = []"
| "b64encode [a] =
     (let n = unat a * 65536
      in [b64_char (n div 262144), b64_char (n div 4096), CHR ''='', CHR ''=''])"
| "b64encode [a, b] =
     (let n = unat a * 65536 + unat b * 256
      in [b64_char (n div 262144), b64_char (n div 4096), b64_char (n div 64), CHR ''=''])"
| "b64encode (a # b # c # bs) =
     (let n = unat a * 65536 + unat b * 256 + unat c
      in [b64_char (n div 262144), b64_char (n div 4096), b64_char (n div 64), b64_char n]
           @ b64encode bs)"

text \<open>
  The decoder takes four characters at a time; \<open>=\<close> is accepted only as padding at
  the end, and any other character outside the alphabet makes the input invalid.
\<close>

fun b64decode :: "string \<Rightarrow> byte list option" where
  "b64decode [] = Some []"
| "b64decode (c1 # c2 # c3 # c4 # cs) =
     (if cs = [] \<and> c3 = CHR ''='' \<and> c4 = CHR ''='' then
        (case (b64_index c1, b64_index c2) of
           (Some i1, Some i2) \<Rightarrow>
             Some [of_nat ((i1 * 262144 + i2 * 4096) div 65536)]
         | _ \<Rightarrow> None)
      else if cs = [] \<and> c4 = CHR ''='' then
        (case (b64_index c1, b64_index c2, b64_index c3) of
           (Some i1, Some i2, Some i3) \<Rightarrow>
             (let m = i1 * 262144 + i2 * 4096 + i3 * 64
              in Some [of_nat (m div 65536), of_nat (m div 256)])
         | _ \<Rightarrow> None)
      else
        (case (b64_index c1, b64_index c2, b64_index c3, b64_index c4) of
           (Some i1, Some i2, Some i3, Some i4) \<Rightarrow>
             (let m = i1 * 262144 + i2 * 4096 + i3 * 64 + i4
              in case b64decode cs of
                   None \<Rightarrow> None
                 | Some bs \<Rightarrow> Some (of_nat (m div 65536) # of_nat (m div 256) # of_nat m # bs))
         | _ \<Rightarrow> None))"
| "b64decode cs = None"

subsection \<open>The tools\<close>

definition get_packages_by_collection ::
  "string option \<Rightarrow> datetime \<Rightarrow> upstream \<Rightarrow> string \<Rightarrow> int option \<Rightarrow> string \<Rightarrow> string \<Rightarrow> string
     \<Rightarrow> int \<Rightarrow> string \<Rightarrow> bool \<Rightarrow> run" where
  "get_packages_by_collection API_KEY now net collection congress doc_class start_date end_date
       page_size offset_mark ctx =
     (if key_missing API_KEY then report_and_raise ctx KEY_NOT_FOUND (ValueError KEY_NOT_FOUND)
      else
        case
          (if start_date = [] then
             (case minus_days now 365 of
                Inl e \<Rightarrow> Inl e
              | Inr default_date \<Rightarrow> Inr (strftime_iso default_date))
           else Inr (start_date @ ''T00:00:00Z''))
        of
          Inl e \<Rightarrow> \<lparr>sent = [], reports = [], result = Inl e\<rparr>
        | Inr last_modified_start \<Rightarrow>
            let params = page_params page_size offset_mark
                  @ (case congress of Some n \<Rightarrow> [(''congress'', PInt n)] | None \<Rightarrow> [])
                  @ (if doc_class \<noteq> [] then [(''docClass'', PStr doc_class)] else []);
                url =
                  (if end_date \<noteq> [] then
                     (let last_modified_end = end_date @ ''T23:59:59Z''
                      in ''https://api.govinfo.gov/collections/'' @ collection @ ''/''
                           @ last_modified_start @ ''/'' @ last_modified_end)
                   else
                     ''https://api.govinfo.gov/collections/'' @ collection @ ''/''
                       @ last_modified_start);
                req = get_request API_KEY url params 30
            in try_json ctx net req ''Packages fetch error: '' (counted ''packages''))"

definition get_package_summary :: "string option \<Rightarrow> upstream \<Rightarrow> string \<Rightarrow> bool \<Rightarrow> run" where
  "get_package_summary API_KEY net package_id ctx =
     (if key_missing API_KEY then report_and_raise ctx KEY_NOT_FOUND (ValueError KEY_NOT_FOUND)
      else
        let req = get_request API_KEY
              (''https://api.govinfo.gov/packages/'' @ package_id @ ''/summary'') [] 30
        in try_json ctx net req ''Package summary fetch error: '' Inr)"

definition content_endpoints :: "(string \<times> string) list" where
  "content_endpoints =
     [(''html'', ''htm''), (''xml'', ''xml''), (''pdf'', ''pdf''), (''text'', ''txt'')]"

text \<open>\<open>content_endpoints.get(content_type.lower(), "htm")\<close>.\<close>

definition endpoint_of :: "string \<Rightarrow> string" where
  "endpoint_of content_type =
     (case map_of content_endpoints (py_lower content_type) of
        Some e \<Rightarrow> e
      | None \<Rightarrow> ''htm'')"

text \<open>\<open>content_type.lower() in {"html", "xml", "text"}\<close>.\<close>

definition textual :: "string \<Rightarrow> bool" where
  "textual content_type = (py_lower content_type \<in> {''html'', ''xml'', ''text''})"

text \<open>
  The message the \<open>except\<close> clauses of \<open>get_package_content\<close> report. The exception
  they raise again is the one they caught.
\<close>

fun content_error_msg :: "string \<Rightarrow> string \<Rightarrow> error \<Rightarrow> string" where
  "content_error_msg package_id content_type (HTTPStatusError m r) =
     (if status_code r = 400 then
        ''Content type '' @ quoted content_type @ '' is not available for package ''
          @ quoted package_id @ ''. ''
          @ ''Use get_package_summary() to check available formats in the 'download' field. ''
          @ ''HTTP error: '' @ m
      else ''HTTP error: '' @ m)"
| "content_error_msg package_id content_type e = ''Package content fetch error: '' @ str_error e"

definition get_package_content :: "string option \<Rightarrow> upstream \<Rightarrow> string \<Rightarrow> string \<Rightarrow> bool \<Rightarrow> run" where
  "get_package_content API_KEY net package_id content_type ctx =
     (if key_missing API_KEY then report_and_raise ctx KEY_NOT_FOUND (ValueError KEY_NOT_FOUND)
      else
        let endpoint = endpoint_of content_type;
            req = get_request API_KEY
              (''https://api.govinfo.gov/packages/'' @ package_id @ ''/'' @ endpoint) [] 60
        in
          case request_ok net req of
            Inl e \<Rightarrow>
              \<lparr>sent = [req],
               reports = [(sink_of ctx, content_error_msg package_id content_type e)],
               result = Inl e\<rparr>
          | Inr response \<Rightarrow>
              if textual content_type then returned req (JStr (resp_text response))
              else
                returned req (JObj
                  [(''content_type'', JStr content_type),
                   (''base64_content'', JStr (b64encode (resp_content response)))]))"


section \<open>The specification's reading\<close>

text \<open>
  The specification describes the query of \<open>search_packages\<close> as the user query
  prefixed, in this order, with the document class, the congress, the collection and
  the title, and then with the two date bounds. This is that description, to be
  compared with what \<open>search_packages\<close> sends.
\<close>

definition claimed_search_query ::
  "string \<Rightarrow> string \<Rightarrow> int option \<Rightarrow> string \<Rightarrow> string \<Rightarrow> string \<Rightarrow> string \<Rightarrow> string" where
  \<open>claimed_search_query query collection congress doc_class title start_date end_date =
     (let q = query;
          q = (if doc_class \<noteq> [] then ''docClass:'' @ doc_class @ '' AND '' @ q else q);
          q = (case congress of Some n \<Rightarrow> ''congress:'' @ str_int n @ '' AND '' @ q | None \<Rightarrow> q);
          q = (if collection \<noteq> [] then ''collection:'' @ collection @ '' AND '' @ q else q);
          q = (if title \<noteq> [] then ''title:"'' @ title @ ''" AND '' @ q else q);
          q = (if start_date \<noteq> [] then ''publishdate:>='' @ start_date @ '' AND '' @ q else q);
          q = (if end_date \<noteq> [] then ''publishdate:<='' @ end_date @ '' AND '' @ q else q)
      in q)\<close>

text \<open>
  The specification describes the default lower bound of
  \<open>get_packages_by_collection\<close> as the date 365 days before now, at midnight.
\<close>

definition strftime_date :: "datetime \<Rightarrow> string" where
  "strftime_date dt =
     zfill 4 (str_nat (dt_year dt)) @ ''-'' @ zfill 2 (str_nat (dt_month dt)) @ ''-''
       @ zfill 2 (str_nat (dt_day dt))"

definition claimed_default_start :: "datetime \<Rightarrow> error + string" where
  "claimed_default_start now =
     (case minus_days now 365 of
        Inl e \<Rightarrow> Inl e
      | Inr d \<Rightarrow> Inr (strftime_date d @ ''T00:00:00Z''))"

text \<open>
  A message directs its reader to the formats a package declares when it names the
  summary tool and the \<open>download\<close> field.
\<close>

definition directs_to_formats :: "string \<Rightarrow> bool" where
  "directs_to_formats msg =
     (sublist ''get_package_summary()'' msg \<and> sublist ''download'' msg)"

section \<open>The tool surface\<close>

text \<open>
  The server registers fifteen tools that call the upstream API. A \<open>tool_call\<close> is
  one of them with its arguments, in the order of the function's parameters;
  \<open>run_tool\<close> calls the function. Only \<open>get_packages_by_collection\<close> reads the clock.
\<close>

datatype tool_call =
    GetCollections int string
  | GetPackagesByCollection string "int option" string string string int string
  | GetPackageSummary string
  | GetPackageContent string string
  | GetPublishedPackages string string string int string
  | GetPublishedRange string string string string string int string
  | GetRelatedPackages string
  | GetGranuleRelated string string
  | SearchPackages string string "int option" string string string string int string
  | AdvancedSearch string "string list" "int list" "string list" "string list"
      string string string string "int option" "int option" string string int string
  | SearchStatutes string string "int option" string string string string int string
  | GetUscodeTitle string string string string int string
  | GetPublicLawsByCongress int string string string string int string
  | GetStatutesAtLarge string string "int option" int string
  | GetStatuteContent string string string

fun run_tool :: "string option \<Rightarrow> datetime \<Rightarrow> upstream \<Rightarrow> bool \<Rightarrow> tool_call \<Rightarrow> run" where
  "run_tool K now net ctx (GetCollections ps om) = get_collections K net ps om ctx"
| "run_tool K now net ctx (GetPackagesByCollection c cg dc sd ed ps om) =
     get_packages_by_collection K now net c cg dc sd ed ps om ctx"
| "run_tool K now net ctx (GetPackageSummary p) = get_package_summary K net p ctx"
| "run_tool K now net ctx (GetPackageContent p ct) = get_package_content K net p ct ctx"
| "run_tool K now net ctx (GetPublishedPackages d c dc ps om) =
     get_published_packages K net d c dc ps om ctx"
| "run_tool K now net ctx (GetPublishedRange sd ed c dc ms ps om) =
     get_published_range K net sd ed c dc ms ps om ctx"
| "run_tool K now net ctx (GetRelatedPackages p) = get_related_packages K net p ctx"
| "run_tool K now net ctx (GetGranuleRelated p g) = get_granule_related K net p g ctx"
| "run_tool K now net ctx (SearchPackages q c cg dc t sd ed ps om) =
     search_packages K net q c cg dc t sd ed ps om ctx"
| "run_tool K now net ctx (AdvancedSearch q cs cg dc cm dis die lms lme pc gc sb so ps om) =
     advanced_search K net q cs cg dc cm dis die lms lme pc gc sb so ps om ctx"
| "run_tool K now net ctx (SearchStatutes q c cg tn s sd ed ps om) =
     search_statutes K net q c cg tn s sd ed ps om ctx"
| "run_tool K now net ctx (GetUscodeTitle tn e ch s ps om) =
     get_uscode_title K net tn e ch s ps om ctx"
| "run_tool K now net ctx (GetPublicLawsByCongress cg lt ln sd ed ps om) =
     get_public_laws_by_congress K net cg lt ln sd ed ps om ctx"
| "run_tool K now net ctx (GetStatutesAtLarge v p cg ps om) =
     get_statutes_at_large K net v p cg ps om ctx"
| "run_tool K now net ctx (GetStatuteContent p ct g) = get_statute_content K net p ct g ctx"

fun is_related_packages :: "tool_call \<Rightarrow> bool" where
  "is_related_packages (GetRelatedPackages p) = True"
| "is_related_packages c = False"

fun is_uscode_title :: "tool_call \<Rightarrow> bool" where
  "is_uscode_title (GetUscodeTitle tn e ch s ps om) = True"
| "is_uscode_title c = False"

text \<open>The call raised \<open>ValueError\<close>, the exception of a missing configuration.\<close>

fun raises_value_error :: "run \<Rightarrow> bool" where
  "raises_value_error r = (case result r of Inl (ValueError m) \<Rightarrow> True | _ \<Rightarrow> False)"

section \<open>Result entries\<close>

text \<open>
  The entry's \<open>collectionCode\<close> is one of the four statute collections.
\<close>

fun statute_entry :: "json \<Rightarrow> bool" where
  "statute_entry (JObj kvs) =
     (case map_of kvs ''collectionCode'' of
        Some (JStr c) \<Rightarrow> c \<in> {''USCODE'', ''STATUTE'', ''PLAW'', ''COMPS''}
      | _ \<Rightarrow> False)"
| "statute_entry v = False"

text \<open>
  An entry as the upstream API documents it: a mapping whose \<open>collectionCode\<close>, when
  it has one, is a string, a number, a bool or null.
\<close>

fun plain_entry :: "json \<Rightarrow> bool" where
  "plain_entry (JObj kvs) =
     (case map_of kvs ''collectionCode'' of
        Some (JArr xs) \<Rightarrow> False
      | Some (JObj d) \<Rightarrow> False
      | _ \<Rightarrow> True)"
| "plain_entry v = False"

section \<open>Clock readings\<close>

text \<open>The time of day of a \<open>datetime\<close> is within its ranges, as the library keeps it.\<close>

definition valid_time :: "datetime \<Rightarrow> bool" where
  "valid_time dt = (dt_hour dt < 24 \<and> dt_minute dt < 60 \<and> dt_second dt < 60)"

section \<open>Properties of the tools\<close>

subsection \<open>Every request of a tool that got past its checks\<close>

lemma sent_try_json [simp]: "sent (try_json ctx net req label after) = [req]"
  by (simp add: try_json_def caught_def returned_def split: sum.splits)

lemma sent_statutes_try_json [simp]:
  "sent (statutes_try_json ctx net req label after) = [req]"
  by (simp add: statutes_try_json_def statutes_caught_def returned_def split: sum.splits)

lemma sent_query_search_request:
  "sent_query (search_request API_KEY (statutes_body q ps om f so)) = Some (JStr q)"
  by (simp add: sent_query_def search_request_def statutes_body_def)

lemma py_lower_public: "py_lower ''public'' = ''public''"
  by (simp add: py_lower_def py_lower_char_def ascii_uppercase_def ascii_lowercase_def)

subsection \<open>Public laws of a congress\<close>

text \<open>
  C8. With a key configured, \<open>get_public_laws_by_congress\<close> called for congress \<open>N\<close>
  with \<open>law_type = "public"\<close> and no other filter posts to \<open>/search\<close> exactly the query
  \<open>collection:PLAW AND congress:N AND (docClass:public OR title:public)\<close>, where \<open>N\<close>
  is printed in decimal.
\<close>

theorem public_laws_query:
  assumes "\<not> key_missing API_KEY"
  shows "map (\<lambda>r. (req_method r, req_url r, sent_query r))
           (sent (get_public_laws_by_congress API_KEY net N ''public'' [] [] []
              page_size offset_mark ctx))
         = [(POST, ''https://api.govinfo.gov/search'',
             Some (JStr (''collection:PLAW AND congress:'' @ str_int N
               @ '' AND (docClass:public OR title:public)'')))]"
  using assms
  by (simp add: get_public_laws_by_congress_def py_lower_public sent_query_search_request)
     (simp add: search_request_def)

text \<open>For the 117th Congress the query is the literal string of the specification.\<close>

theorem public_laws_query_witness:
  "map (\<lambda>r. (req_method r, req_url r, sent_query r))
     (sent (get_public_laws_by_congress (Some ''key'') (\<lambda>r. Refused ''offline'') 117
        ''public'' [] [] [] 50 ''*'' False))
   = [(POST, ''https://api.govinfo.gov/search'',
       Some (JStr ''collection:PLAW AND congress:117 AND (docClass:public OR title:public)''))]"
  using public_laws_query [of "Some ''key''" "\<lambda>r. Refused ''offline''" 117 50 "''*''" False]
  by (simp add: str_int_def str_nat.simps)

subsection \<open>A missing API key\<close>

text \<open>
  C1, as the code has it. When the API key is missing (the variable is unset or
  empty), no tool issues a request, whatever its arguments. Fourteen of the fifteen
  tools raise the configuration error: \<open>ValueError\<close> with the message
  \<open>GOVINFO_API_KEY not found in environment variables\<close> (\<open>GOVINFO_API_KEY not set\<close> for
  \<open>get_uscode_title\<close>), also when an argument is one the tool would reject, since the
  key is checked first. \<open>get_related_packages\<close> does not raise and returns the mapping
  \<open>{"error": "GOVINFO_API_KEY not found in environment variables"}\<close>.
\<close>

theorem missing_key_stops_every_tool:
  assumes "key_missing API_KEY"
  shows "sent (run_tool API_KEY now net ctx c) = []
         \<and> result (run_tool API_KEY now net ctx c)
           = (if is_related_packages c then Inr (JObj [(''error'', JStr KEY_NOT_FOUND)])
              else if is_uscode_title c then Inl (ValueError ''GOVINFO_API_KEY not set'')
              else Inl (ValueError KEY_NOT_FOUND))"
  using assms
  by (cases c)
     (simp_all add: report_and_raise_def get_collections_def get_packages_by_collection_def
        get_package_summary_def get_package_content_def get_published_packages_def
        get_published_range_def get_related_packages_def get_granule_related_def
        search_packages_def advanced_search_def search_statutes_def get_uscode_title_def
        get_public_laws_by_congress_def get_statutes_at_large_def get_statute_content_def)

text \<open>
  With the key unset, \<open>search_statutes\<close> called with the collection \<open>BILLS\<close>, which it
  would reject, raises the configuration error and not the validation error.
\<close>

theorem missing_key_stops_every_tool_witness:
  "sent (run_tool None
      \<lparr>dt_year = 2025, dt_month = 3, dt_day = 10, dt_hour = 14, dt_minute = 30, dt_second = 45\<rparr>
      (\<lambda>r. Refused ''offline'') False
      (SearchStatutes ''civil rights'' ''BILLS'' None [] [] [] [] 50 ''*'')) = []
   \<and> result (run_tool None
      \<lparr>dt_year = 2025, dt_month = 3, dt_day = 10, dt_hour = 14, dt_minute = 30, dt_second = 45\<rparr>
      (\<lambda>r. Refused ''offline'') False
      (SearchStatutes ''civil rights'' ''BILLS'' None [] [] [] [] 50 ''*''))
     = Inl (ValueError ''GOVINFO_API_KEY not found in environment variables'')"
  using missing_key_stops_every_tool [of None
      "\<lparr>dt_year = 2025, dt_month = 3, dt_day = 10, dt_hour = 14, dt_minute = 30, dt_second = 45\<rparr>"
      "\<lambda>r. Refused ''offline''" False
      "SearchStatutes ''civil rights'' ''BILLS'' None [] [] [] [] 50 ''*''"]
  by (simp add: KEY_NOT_FOUND_def)

text \<open>
  C1 as stated fails for \<open>get_related_packages\<close>: with the key unset the call returns
  a value, it does not raise.
\<close>

theorem related_packages_returns_error_dict:
  "result (get_related_packages None (\<lambda>r. Refused ''offline'') ''BILLS-116hr1-ih'' False)
     = Inr (JObj [(''error'', JStr ''GOVINFO_API_KEY not found in environment variables'')])
   \<and> \<not> raises_value_error
         (get_related_packages None (\<lambda>r. Refused ''offline'') ''BILLS-116hr1-ih'' False)"
  by (simp add: get_related_packages_def KEY_NOT_FOUND_def)

subsection \<open>The query of \<open>search_packages\<close>\<close>

lemma sent_query_packages_body:
  "sent_query (search_request API_KEY (JObj ((''query'', v) # rest))) = Some v"
  by (simp add: sent_query_def search_request_def)

text \<open>
  C2, as the code has it. With a key configured, \<open>search_packages\<close> posts to
  \<open>/search\<close> the user query prefixed, for each filter that is present, first with the
  collection, then the congress, then the document class, then the title, then the
  lower and the upper date bound: the outermost prefix is the upper date bound and the
  clause next to the user query is the collection.
\<close>

theorem search_packages_query:
  assumes "\<not> key_missing API_KEY"
  shows \<open>map (\<lambda>r. (req_method r, req_url r, sent_query r))
           (sent (search_packages API_KEY net query collection congress doc_class title
              start_date end_date page_size offset_mark ctx))
         = [(POST, ''https://api.govinfo.gov/search'',
             Some (JStr
               ((if end_date \<noteq> [] then ''publishdate:<='' @ end_date @ '' AND '' else [])
                @ (if start_date \<noteq> [] then ''publishdate:>='' @ start_date @ '' AND '' else [])
                @ (if title \<noteq> [] then ''title:"'' @ title @ ''" AND '' else [])
                @ (if doc_class \<noteq> [] then ''docClass:'' @ doc_class @ '' AND '' else [])
                @ (case congress of Some n \<Rightarrow> ''congress:'' @ str_int n @ '' AND '' | None \<Rightarrow> [])
                @ (if collection \<noteq> [] then ''collection:'' @ collection @ '' AND '' else [])
                @ query)))]\<close>
  using assms
  by (simp add: search_packages_def Let_def sent_query_packages_body split: option.split)
     (simp add: search_request_def)

theorem search_packages_query_witness:
  \<open>map (\<lambda>r. (req_method r, req_url r, sent_query r))
     (sent (search_packages (Some ''key'') (\<lambda>r. Refused ''offline'') ''tax'' ''BILLS'' (Some 117)
        ''hr'' ''Act'' ''2024-01-01'' ''2024-12-31'' 50 ''*'' False))
   = [(POST, ''https://api.govinfo.gov/search'',
       Some (JStr ''publishdate:<=2024-12-31 AND publishdate:>=2024-01-01 AND title:"Act" AND docClass:hr AND congress:117 AND collection:BILLS AND tax''))]\<close>
  using search_packages_query [of "Some ''key''" "\<lambda>r. Refused ''offline''" "''tax''" "''BILLS''"
      "Some 117" "''hr''" "''Act''" "''2024-01-01''" "''2024-12-31''" 50 "''*''" False]
  by (simp add: str_int_def str_nat.simps)

text \<open>
  C2 as stated puts the collection, the congress and the document class in the
  opposite order. With every filter present the two strings differ.
\<close>

theorem search_packages_order_counterexample:
  \<open>claimed_search_query ''tax'' ''BILLS'' (Some 117) ''hr'' ''Act'' ''2024-01-01'' ''2024-12-31''
     = ''publishdate:<=2024-12-31 AND publishdate:>=2024-01-01 AND title:"Act" AND collection:BILLS AND congress:117 AND docClass:hr AND tax''
   \<and> map sent_query
        (sent (search_packages (Some ''key'') (\<lambda>r. Refused ''offline'') ''tax'' ''BILLS'' (Some 117)
           ''hr'' ''Act'' ''2024-01-01'' ''2024-12-31'' 50 ''*'' False))
      \<noteq> [Some (JStr (claimed_search_query ''tax'' ''BILLS'' (Some 117) ''hr'' ''Act''
             ''2024-01-01'' ''2024-12-31''))]\<close>
  by (simp add: claimed_search_query_def search_packages_def Let_def sent_query_packages_body
        str_int_def str_nat.simps)

subsection \<open>The query of \<open>search_statutes\<close>\<close>

lemma statute_codes:
  "join '' OR '' (map ((@) ''collection:'' \<circ> fst) STATUTE_COLLECTIONS)
     = ''collection:USCODE OR collection:STATUTE OR collection:PLAW OR collection:COMPS''"
  by (simp add: STATUTE_COLLECTIONS_def)

text \<open>
  C3. With a key configured and no collection given, \<open>search_statutes\<close> posts to
  \<open>/search\<close> a query that starts with the four statute collections OR-ed in
  parentheses, AND-ed with the user query in parentheses; the clauses of the other
  filters follow it, and with no other filter that is the whole query.
\<close>

theorem search_statutes_all_collections_query:
  assumes "\<not> key_missing API_KEY"
  shows "map (\<lambda>r. (req_method r, req_url r, sent_query r))
           (sent (search_statutes API_KEY net query [] congress title_number section_no
              start_date end_date page_size offset_mark ctx))
         = [(POST, ''https://api.govinfo.gov/search'',
             Some (JStr
               (''(collection:USCODE OR collection:STATUTE OR collection:PLAW OR collection:COMPS) AND (''
                @ query @ '')''
                @ (case congress of Some n \<Rightarrow> '' AND congress:'' @ str_int n | None \<Rightarrow> [])
                @ (if title_number \<noteq> [] then '' AND title:'' @ title_number else [])
                @ (if section_no \<noteq> [] then '' AND section:'' @ section_no else [])
                @ (if start_date \<noteq> [] then '' AND publishdate:['' @ start_date @ '' TO *]'' else [])
                @ (if end_date \<noteq> [] then '' AND publishdate:[* TO '' @ end_date @ '']'' else []))))]"
  using assms
  by (simp add: search_statutes_def Let_def statute_codes sent_query_search_request
        split: option.split)
     (simp add: search_request_def)

text \<open>For the query \<open>civil rights\<close> the string is the literal one.\<close>

theorem search_statutes_all_collections_query_witness:
  "map (\<lambda>r. (req_method r, req_url r, sent_query r))
     (sent (search_statutes (Some ''key'') (\<lambda>r. Refused ''offline'') ''civil rights'' [] None [] []
        [] [] 50 ''*'' False))
   = [(POST, ''https://api.govinfo.gov/search'',
       Some (JStr ''(collection:USCODE OR collection:STATUTE OR collection:PLAW OR collection:COMPS) AND (civil rights)''))]"
  using search_statutes_all_collections_query [of "Some ''key''" "\<lambda>r. Refused ''offline''"
      "''civil rights''" None "[]" "[]" "[]" "[]" 50 "''*''" False]
  by simp

subsection \<open>The client-side filter of \<open>search_statutes\<close>\<close>

lemma map_of_py_setitem: "map_of (py_setitem kvs k v) = (map_of kvs)(k \<mapsto> v)"
  by (induction kvs k v rule: py_setitem.induct) (auto simp: fun_eq_iff)

lemma in_keys_statute:
  "in_keys (JStr c) STATUTE_COLLECTIONS = Inr (c \<in> {''USCODE'', ''STATUTE'', ''PLAW'', ''COMPS''})"
  by (auto simp: STATUTE_COLLECTIONS_def)


lemma keep_one:
  assumes "plain_entry r"
  shows "\<exists>code. py_get r ''collectionCode'' JNull = Inr code
           \<and> in_keys code STATUTE_COLLECTIONS = Inr (statute_entry r)"
proof (cases r)
  case (JObj kvs)
  show ?thesis
  proof (cases "map_of kvs ''collectionCode''")
    case None
    with JObj show ?thesis by simp
  next
    case (Some code)
    with JObj assms show ?thesis
      by (cases code) (simp_all add: STATUTE_COLLECTIONS_def)
  qed
qed (use assms in simp_all)

lemma keep_statutes_plain:
  "list_all plain_entry rs \<Longrightarrow> keep_statutes rs = Inr (filter statute_entry rs)"
proof (induction rs)
  case Nil
  show ?case by simp
next
  case (Cons r rs)
  then have "plain_entry r" and tl: "keep_statutes rs = Inr (filter statute_entry rs)"
    by simp_all
  from keep_one [OF \<open>plain_entry r\<close>]
  obtain code where "py_get r ''collectionCode'' JNull = Inr code"
    and "in_keys code STATUTE_COLLECTIONS = Inr (statute_entry r)"
    by blast
  with tl show ?case by simp
qed

lemma filter_results_all:
  assumes "map_of kvs ''results'' = Some (JArr rs)" and "list_all plain_entry rs"
  shows "filter_results [] (JObj kvs) =
     Inr (JObj (py_setitem (py_setitem kvs ''results'' (JArr (filter statute_entry rs)))
        ''count'' (JNum (int (length (filter statute_entry rs))))))"
proof -
  from assms(1) have "(''results'', JArr rs) \<in> set kvs"
    by (rule map_of_SomeD)
  then have "''results'' \<in> fst ` set kvs"
    by force
  with assms show ?thesis
    by (simp add: filter_results_def keep_statutes_plain)
qed

lemma fetch_json_answer:
  assumes "200 \<le> status_code r" and "status_code r < 300" and "resp_json r = Inr d"
  shows "fetch_json (\<lambda>req. Answer r) req = Inr d"
  using assms by (simp add: fetch_json_def request_ok_def raise_for_status_def response_json_def)

lemma result_statutes_try_json:
  assumes "fetch_json net req = Inr d"
  shows "result (statutes_try_json ctx net req label after) = after d"
  using assms
  by (simp add: statutes_try_json_def statutes_caught_def returned_def split: sum.splits)

lemma result_search_statutes:
  assumes "\<not> key_missing API_KEY"
    and "collection = [] \<or> collection \<in> set (map fst STATUTE_COLLECTIONS)"
    and "200 \<le> status_code r" and "status_code r < 300" and "resp_json r = Inr d"
  shows "result (search_statutes API_KEY (\<lambda>req. Answer r) query collection congress title_number
            section_no start_date end_date page_size offset_mark ctx)
         = statutes_after collection d"
proof -
  have valid: "\<not> (collection \<noteq> [] \<and> collection \<notin> set (map fst STATUTE_COLLECTIONS))"
    using assms(2) by blast
  show ?thesis
    unfolding search_statutes_def Let_def if_not_P [OF assms(1)] if_not_P [OF valid]
    by (rule result_statutes_try_json [OF fetch_json_answer [OF assms(3,4,5)]])
qed

text \<open>
  C4, as the code has it. Let the upstream answer with a 2xx status and a JSON
  mapping. If \<open>search_statutes\<close> is called with no collection, the mapping has a
  \<open>results\<close> list, and every entry of the list is a mapping whose \<open>collectionCode\<close>
  (when present) is not a list or a mapping, then the call returns the mapping with
  \<open>results\<close> replaced by the entries whose \<open>collectionCode\<close> is one of \<open>USCODE\<close>,
  \<open>STATUTE\<close>, \<open>PLAW\<close>, \<open>COMPS\<close>, in their order, and \<open>count\<close> set to their number;
  every other key keeps its value. If it is called with one of the four collections,
  it returns the mapping unchanged.
\<close>

theorem search_statutes_post_filter:
  assumes "\<not> key_missing API_KEY"
    and "200 \<le> status_code r" and "status_code r < 300"
    and "resp_json r = Inr (JObj kvs)"
  shows "(\<forall>rs. map_of kvs ''results'' = Some (JArr rs) \<and> list_all plain_entry rs \<longrightarrow>
            (\<exists>kvs'. result (search_statutes API_KEY (\<lambda>req. Answer r) query [] congress
                        title_number section_no start_date end_date page_size offset_mark ctx)
                      = Inr (JObj kvs')
                 \<and> map_of kvs' = (map_of kvs)
                      (''results'' \<mapsto> JArr (filter statute_entry rs),
                       ''count'' \<mapsto> JNum (int (length (filter statute_entry rs))))))
       \<and> (\<forall>collection \<in> set (map fst STATUTE_COLLECTIONS).
            result (search_statutes API_KEY (\<lambda>req. Answer r) query collection congress
                      title_number section_no start_date end_date page_size offset_mark ctx)
              = Inr (JObj kvs))"
proof (intro conjI allI impI ballI)
  fix rs
  assume "map_of kvs ''results'' = Some (JArr rs) \<and> list_all plain_entry rs"
  then have "filter_results [] (JObj kvs) =
     Inr (JObj (py_setitem (py_setitem kvs ''results'' (JArr (filter statute_entry rs)))
        ''count'' (JNum (int (length (filter statute_entry rs))))))"
    by (simp add: filter_results_all)
  then have "statutes_after [] (JObj kvs) =
     Inr (JObj (py_setitem (py_setitem kvs ''results'' (JArr (filter statute_entry rs)))
        ''count'' (JNum (int (length (filter statute_entry rs))))))"
    by (simp add: statutes_after_def count_logged_def)
  with assms show "\<exists>kvs'. result (search_statutes API_KEY (\<lambda>req. Answer r) query [] congress
                        title_number section_no start_date end_date page_size offset_mark ctx)
                      = Inr (JObj kvs')
                 \<and> map_of kvs' = (map_of kvs)
                      (''results'' \<mapsto> JArr (filter statute_entry rs),
                       ''count'' \<mapsto> JNum (int (length (filter statute_entry rs))))"
    by (simp add: result_search_statutes map_of_py_setitem)
next
  fix collection
  assume c: "collection \<in> set (map fst STATUTE_COLLECTIONS)"
  then have "collection \<noteq> []"
    by (auto simp: STATUTE_COLLECTIONS_def)
  then have "statutes_after collection (JObj kvs) = Inr (JObj kvs)"
    by (simp add: statutes_after_def filter_results_def count_logged_def)
  with assms c show "result (search_statutes API_KEY (\<lambda>req. Answer r) query collection congress
                      title_number section_no start_date end_date page_size offset_mark ctx)
              = Inr (JObj kvs)"
    by (simp add: result_search_statutes del: set_map)
qed



text \<open>
  A response of three entries, one of them a public law: the filter keeps that one and
  counts 1; with \<open>collection = "PLAW"\<close> the response comes back as it was.
\<close>

theorem search_statutes_post_filter_witness:
  "(\<exists>kvs'. result (search_statutes (Some ''key'')
        (\<lambda>req. Answer \<lparr>status_code = 200, status_message = [], resp_content = [], resp_text = [],
           resp_json = Inr (JObj
             [(''count'', JNum 3),
              (''results'', JArr
                 [JObj [(''collectionCode'', JStr ''BILLS'')],
                  JObj [(''collectionCode'', JStr ''PLAW'')],
                  JObj [(''title'', JStr ''untitled'')]])])\<rparr>)
        ''civil rights'' [] None [] [] [] [] 50 ''*'' False) = Inr (JObj kvs')
      \<and> map_of kvs' ''results'' = Some (JArr [JObj [(''collectionCode'', JStr ''PLAW'')]])
      \<and> map_of kvs' ''count'' = Some (JNum 1))
   \<and> result (search_statutes (Some ''key'')
        (\<lambda>req. Answer \<lparr>status_code = 200, status_message = [], resp_content = [], resp_text = [],
           resp_json = Inr (JObj
             [(''count'', JNum 3),
              (''results'', JArr
                 [JObj [(''collectionCode'', JStr ''BILLS'')],
                  JObj [(''collectionCode'', JStr ''PLAW'')],
                  JObj [(''title'', JStr ''untitled'')]])])\<rparr>)
        ''civil rights'' ''PLAW'' None [] [] [] [] 50 ''*'' False)
      = Inr (JObj
             [(''count'', JNum 3),
              (''results'', JArr
                 [JObj [(''collectionCode'', JStr ''BILLS'')],
                  JObj [(''collectionCode'', JStr ''PLAW'')],
                  JObj [(''title'', JStr ''untitled'')]])])"
proof -
  define rs where "rs =
     [JObj [(''collectionCode'', JStr ''BILLS'')],
      JObj [(''collectionCode'', JStr ''PLAW'')],
      JObj [(''title'', JStr ''untitled'')]]"
  define kvs where "kvs = [(''count'', JNum 3), (''results'', JArr rs)]"
  define r where "r = \<lparr>status_code = 200, status_message = [], resp_content = [], resp_text = [],
     resp_json = Inr (JObj kvs)\<rparr>"
  have key: "\<not> key_missing (Some ''key'')" by simp
  have lo: "200 \<le> status_code r" and hi: "status_code r < 300"
    and body: "resp_json r = Inr (JObj kvs)"
    by (simp_all add: r_def)
  note inst = search_statutes_post_filter [OF key lo hi body,
      of "''civil rights''" None "[]" "[]" "[]" "[]" 50 "''*''" False]
  have res: "map_of kvs ''results'' = Some (JArr rs) \<and> list_all plain_entry rs"
    by (simp add: kvs_def rs_def)
  have flt: "filter statute_entry rs = [JObj [(''collectionCode'', JStr ''PLAW'')]]"
    by (simp add: rs_def)
  have plaw: "''PLAW'' \<in> set (map fst STATUTE_COLLECTIONS)"
    by (simp add: STATUTE_COLLECTIONS_def)
  from inst res obtain kvs' where
    "result (search_statutes (Some ''key'') (\<lambda>req. Answer r) ''civil rights'' [] None [] [] [] []
       50 ''*'' False) = Inr (JObj kvs')"
    and "map_of kvs' = (map_of kvs)
           (''results'' \<mapsto> JArr (filter statute_entry rs),
            ''count'' \<mapsto> JNum (int (length (filter statute_entry rs))))"
    by blast
  moreover from inst plaw have
    "result (search_statutes (Some ''key'') (\<lambda>req. Answer r) ''civil rights'' ''PLAW'' None [] [] [] []
       50 ''*'' False) = Inr (JObj kvs)"
    by blast
  ultimately show ?thesis
    unfolding flt by (auto simp: r_def kvs_def rs_def)
qed

text \<open>
  C4 as stated covers every response with a \<open>results\<close> list. When an entry carries a
  list as its \<open>collectionCode\<close>, or is not a mapping, the comprehension raises and the
  call fails instead of returning the filtered mapping.
\<close>

theorem search_statutes_odd_entry_counterexample:
  "result (search_statutes (Some ''key'')
      (\<lambda>req. Answer \<lparr>status_code = 200, status_message = [], resp_content = [], resp_text = [],
         resp_json = Inr (JObj
           [(''count'', JNum 1),
            (''results'', JArr [JObj [(''collectionCode'', JArr [JStr ''USCODE''])]])])\<rparr>)
      ''civil rights'' [] None [] [] [] [] 50 ''*'' False)
     = Inl (TypeError (''unhashable type: '' @ quoted ''list''))
   \<and> result (search_statutes (Some ''key'')
      (\<lambda>req. Answer \<lparr>status_code = 200, status_message = [], resp_content = [], resp_text = [],
         resp_json = Inr (JObj
           [(''count'', JNum 1), (''results'', JArr [JStr ''USCODE''])])\<rparr>)
      ''civil rights'' [] None [] [] [] [] 50 ''*'' False)
     = Inl (AttributeError (quoted ''str'' @ '' object has no attribute '' @ quoted ''get''))"
  by (simp add: result_search_statutes statutes_after_def filter_results_def no_attribute_def)

subsection \<open>Base64 decoding inverts encoding\<close>

lemma byte_of_nat:
  assumes "k mod 256 = unat (a :: byte)"
  shows "of_nat k = a"
proof -
  have "(of_nat k :: byte) = of_nat (unat a)"
    by (simp add: word_of_nat_eq_iff take_bit_eq_mod assms [symmetric])
  then show ?thesis by simp
qed

lemma unat_byte: "unat (a :: byte) < 256"
  using unsigned_less [of a, where ?'a = nat] by simp

lemma sextets:
  assumes "n < 16777216"
  shows "(n div 262144 mod 64) * 262144 + (n div 4096 mod 64) * 4096 + (n div 64 mod 64) * 64
       + n mod 64 = (n::nat)"
proof -
  have lo: "n mod 4096 = 64 * (n div 64 mod 64) + n mod 64"
    using mod_mult2_eq [of n 64 64] by simp
  have mid: "n mod 262144 = 4096 * (n div 4096 mod 64) + n mod 4096"
    using mod_mult2_eq [of n 4096 64] by simp
  have hi: "n mod 16777216 = 262144 * (n div 262144 mod 64) + n mod 262144"
    using mod_mult2_eq [of n 262144 64] by simp
  from assms have "n mod 16777216 = n" by simp
  with lo mid hi show ?thesis by linarith
qed

lemma length_b64_alphabet: "length b64_alphabet = 64"
  by (simp add: b64_alphabet_def)

lemma distinct_b64_alphabet: "distinct b64_alphabet"
  by (simp add: b64_alphabet_def)

lemma b64_index_char: "b64_index (b64_char n) = Some (n mod 64)"
proof -
  have "map_of (zip b64_alphabet [0..<64]) (b64_alphabet ! (n mod 64)) = Some ([0..<64] ! (n mod 64))"
    by (rule map_of_zip_nth) (simp_all add: length_b64_alphabet distinct_b64_alphabet)
  then show ?thesis
    by (simp add: b64_index_def b64_char_def)
qed

lemma b64_char_not_pad: "b64_char n \<noteq> CHR ''=''"
proof -
  have "b64_char n \<in> set b64_alphabet"
    by (simp add: b64_char_def length_b64_alphabet)
  moreover have "CHR ''='' \<notin> set b64_alphabet"
    by (simp add: b64_alphabet_def)
  ultimately show ?thesis by metis
qed

lemma bytes_hi: "y < 256 \<Longrightarrow> z < 256 \<Longrightarrow> (x * 65536 + y * 256 + z) div 65536 = (x::nat)"
  by simp

lemma bytes_mid: "y < 256 \<Longrightarrow> z < 256 \<Longrightarrow> (x * 65536 + y * 256 + z) div 256 mod 256 = (y::nat)"
proof -
  assume a: "y < 256" "z < 256"
  have "x * 65536 + y * 256 + z = (x * 256 + y) * 256 + z" by simp
  then have "(x * 65536 + y * 256 + z) div 256 = x * 256 + y" using a by simp
  then show ?thesis using a by simp
qed

lemma bytes_lo: "z < 256 \<Longrightarrow> (x * 65536 + y * 256 + z) mod 256 = (z::nat)"
proof -
  assume a: "z < 256"
  have "(x * 65536 + y * 256 + z) mod 256 = ((x * 256 + y) * 256 + z) mod 256"
    by (rule arg_cong [where f = "\<lambda>n. n mod 256"]) simp
  also have "\<dots> = z" using a by (simp only: mod_mult_self3 mod_less)
  finally show ?thesis .
qed

lemma low_zero2: "(x * 65536 + y * 256) mod 64 = (0::nat)"
proof -
  have "x * 65536 + y * 256 = (x * 1024 + y * 4) * 64" by simp
  then show ?thesis by simp
qed

lemma low_zero1: "(x * 65536) div 64 mod 64 = (0::nat)" "(x * 65536) mod 64 = (0::nat)"
proof -
  have "x * 65536 = (x * 1024) * 64" by simp
  then have "(x * 65536) div 64 = x * 16 * 64" by simp
  then show "(x * 65536) div 64 mod 64 = (0::nat)" by simp
  show "(x * 65536) mod 64 = (0::nat)" by simp
qed


lemma decode_three:
  fixes a b c :: byte
  defines "n \<equiv> unat a * 65536 + unat b * 256 + unat c"
  defines "m \<equiv> (n div 262144 mod 64) * 262144 + (n div 4096 mod 64) * 4096
                  + (n div 64 mod 64) * 64 + n mod 64"
  shows "of_nat (m div 65536) = a" and "of_nat (m div 256) = b" and "of_nat m = c"
proof -
  have bounds: "unat a < 256" "unat b < 256" "unat c < 256"
    by (rule unat_byte)+
  then have "n < 16777216" by (simp add: n_def)
  then have m: "m = n" unfolding m_def by (rule sextets)
  from bounds have "n div 65536 = unat a"
    unfolding n_def by (simp only: bytes_hi)
  with bounds have hi: "n div 65536 mod 256 = unat a" by simp
  from bounds have mid: "n div 256 mod 256 = unat b"
    unfolding n_def by (simp only: bytes_mid)
  from bounds have lo: "n mod 256 = unat c"
    unfolding n_def by (simp only: bytes_lo)
  from hi show "of_nat (m div 65536) = a" unfolding m by (rule byte_of_nat)
  from mid show "of_nat (m div 256) = b" unfolding m by (rule byte_of_nat)
  from lo show "of_nat m = c" unfolding m by (rule byte_of_nat)
qed

lemma decode_two:
  fixes a b :: byte
  defines "n \<equiv> unat a * 65536 + unat b * 256"
  defines "m \<equiv> (n div 262144 mod 64) * 262144 + (n div 4096 mod 64) * 4096
                  + (n div 64 mod 64) * 64"
  shows "of_nat (m div 65536) = a" and "of_nat (m div 256) = b"
proof -
  have bounds: "unat a < 256" "unat b < 256"
    by (rule unat_byte)+
  then have "n < 16777216" by (simp add: n_def)
  then have "m + n mod 64 = n" unfolding m_def by (rule sextets)
  moreover have "n mod 64 = 0" unfolding n_def by (rule low_zero2)
  ultimately have m: "m = n" by simp
  have n: "n = unat a * 65536 + unat b * 256 + 0" by (simp add: n_def)
  from bounds have "n div 65536 = unat a"
    unfolding n by (simp only: bytes_hi)
  with bounds have hi: "n div 65536 mod 256 = unat a" by simp
  from bounds have mid: "n div 256 mod 256 = unat b"
    unfolding n by (simp only: bytes_mid)
  from hi show "of_nat (m div 65536) = a" unfolding m by (rule byte_of_nat)
  from mid show "of_nat (m div 256) = b" unfolding m by (rule byte_of_nat)
qed

lemma decode_one:
  fixes a :: byte
  defines "n \<equiv> unat a * 65536"
  defines "m \<equiv> (n div 262144 mod 64) * 262144 + (n div 4096 mod 64) * 4096"
  shows "of_nat (m div 65536) = a"
proof -
  have bound: "unat a < 256" by (rule unat_byte)
  then have "n < 16777216" by (simp add: n_def)
  then have "m + (n div 64 mod 64) * 64 + n mod 64 = n" unfolding m_def by (rule sextets)
  moreover have "n div 64 mod 64 = 0" and "n mod 64 = 0"
    unfolding n_def by (rule low_zero1)+
  ultimately have m: "m = n" by simp
  have "n div 65536 = unat a" by (simp add: n_def)
  with bound have "n div 65536 mod 256 = unat a" by simp
  then show ?thesis unfolding m by (rule byte_of_nat)
qed

lemma decode_full:
  "b64decode (b64_char s1 # b64_char s2 # b64_char s3 # b64_char s4 # cs) =
     (case b64decode cs of
        None \<Rightarrow> None
      | Some bs \<Rightarrow>
          Some (of_nat ((s1 mod 64 * 262144 + s2 mod 64 * 4096 + s3 mod 64 * 64 + s4 mod 64) div 65536)
            # of_nat ((s1 mod 64 * 262144 + s2 mod 64 * 4096 + s3 mod 64 * 64 + s4 mod 64) div 256)
            # of_nat (s1 mod 64 * 262144 + s2 mod 64 * 4096 + s3 mod 64 * 64 + s4 mod 64)
            # bs))"
  by (simp add: b64_index_char b64_char_not_pad Let_def)

lemma decode_pad1:
  "b64decode [b64_char s1, b64_char s2, b64_char s3, CHR ''=''] =
     Some [of_nat ((s1 mod 64 * 262144 + s2 mod 64 * 4096 + s3 mod 64 * 64) div 65536),
           of_nat ((s1 mod 64 * 262144 + s2 mod 64 * 4096 + s3 mod 64 * 64) div 256)]"
  by (simp add: b64_index_char b64_char_not_pad Let_def)

lemma decode_pad2:
  "b64decode [b64_char s1, b64_char s2, CHR ''='', CHR ''=''] =
     Some [of_nat ((s1 mod 64 * 262144 + s2 mod 64 * 4096) div 65536)]"
  by (simp add: b64_index_char Let_def)

lemma b64_roundtrip: "b64decode (b64encode bs) = Some bs"
proof (induction bs rule: b64encode.induct)
  case 1
  show ?case by simp
next
  case (2 a)
  show ?case
    unfolding b64encode.simps Let_def decode_pad2 decode_one ..
next
  case (3 a b)
  show ?case
    unfolding b64encode.simps Let_def decode_pad1 decode_two ..
next
  case (4 a b c bs)
  show ?case
    unfolding b64encode.simps Let_def append_Cons append_Nil decode_full "4.IH" [OF refl]
      option.case decode_three ..
qed


subsection \<open>The content of a package\<close>

lemma py_lower_char_idem: "py_lower_char (py_lower_char c) = py_lower_char c"
proof (cases "map_of (zip ascii_uppercase ascii_lowercase) c")
  case None
  then show ?thesis by (simp add: py_lower_char_def)
next
  case (Some l)
  then have "(c, l) \<in> set (zip ascii_uppercase ascii_lowercase)"
    by (rule map_of_SomeD)
  then have "l \<in> set ascii_lowercase"
    by (rule set_zip_rightD)
  then have "l \<notin> set ascii_uppercase"
    by (auto simp: ascii_lowercase_def ascii_uppercase_def)
  then have "map_of (zip ascii_uppercase ascii_lowercase) l = None"
    by (simp add: ascii_lowercase_def ascii_uppercase_def)
  with Some show ?thesis by (simp add: py_lower_char_def)
qed

lemma py_lower_idem: "py_lower (py_lower s) = py_lower s"
  by (simp add: py_lower_def py_lower_char_idem)

lemma endpoint_of_lower: "endpoint_of (py_lower c) = endpoint_of c"
  by (simp add: endpoint_of_def py_lower_idem)

lemma textual_lower: "textual (py_lower c) = textual c"
  by (simp add: textual_def py_lower_idem)

lemma get_package_content_ok:
  assumes "\<not> key_missing API_KEY"
    and "net (get_request API_KEY
           (''https://api.govinfo.gov/packages/'' @ package_id @ ''/'' @ endpoint_of content_type)
           [] 60) = Answer r"
    and "200 \<le> status_code r" and "status_code r < 300"
  shows "get_package_content API_KEY net package_id content_type ctx =
     returned
       (get_request API_KEY
          (''https://api.govinfo.gov/packages/'' @ package_id @ ''/'' @ endpoint_of content_type)
          [] 60)
       (if textual content_type then JStr (resp_text r)
        else JObj [(''content_type'', JStr content_type),
                   (''base64_content'', JStr (b64encode (resp_content r)))])"
  using assms
  by (simp add: get_package_content_def Let_def request_ok_def raise_for_status_def)

lemma py_lower_pdf: "py_lower ''pdf'' = ''pdf''"
  by (simp add: py_lower_def py_lower_char_def ascii_uppercase_def ascii_lowercase_def)

lemma endpoint_of_pdf: "endpoint_of ''pdf'' = ''pdf''"
  by (simp add: endpoint_of_def py_lower_pdf content_endpoints_def)

lemma not_textual_pdf: "\<not> textual ''pdf''"
  by (simp add: textual_def py_lower_pdf)

text \<open>
  C6. With a key configured, when the upstream answers the \<open>pdf\<close> request of a
  package with a 2xx status and body \<open>b\<close>, \<open>get_package_content\<close> with
  \<open>content_type = "pdf"\<close> returns a mapping with exactly the keys \<open>content_type\<close> and
  \<open>base64_content\<close>, and decoding the \<open>base64_content\<close> string gives \<open>b\<close> back.
\<close>

theorem pdf_content_roundtrip:
  assumes "\<not> key_missing API_KEY"
    and "net (get_request API_KEY (''https://api.govinfo.gov/packages/'' @ package_id @ ''/pdf'')
           [] 60) = Answer r"
    and "200 \<le> status_code r" and "status_code r < 300"
  shows "\<exists>s. result (get_package_content API_KEY net package_id ''pdf'' ctx)
              = Inr (JObj [(''content_type'', JStr ''pdf''), (''base64_content'', JStr s)])
           \<and> b64decode s = Some (resp_content r)"
proof -
  from assms(2) have "net (get_request API_KEY
      (''https://api.govinfo.gov/packages/'' @ package_id @ ''/'' @ endpoint_of ''pdf'') [] 60)
      = Answer r"
    by (simp add: endpoint_of_pdf)
  from get_package_content_ok [where net = net and r = r, OF assms(1) this assms(3,4)]
  have "result (get_package_content API_KEY net package_id ''pdf'' ctx)
          = Inr (JObj [(''content_type'', JStr ''pdf''),
                       (''base64_content'', JStr (b64encode (resp_content r)))])"
    by (simp add: returned_def not_textual_pdf)
  then show ?thesis
    by (simp add: b64_roundtrip)
qed

text \<open>The four bytes \<open>%PDF\<close> travel as \<open>JVBERg==\<close>.\<close>

theorem pdf_content_roundtrip_witness:
  "result (get_package_content (Some ''key'')
      (\<lambda>req. Answer \<lparr>status_code = 200, status_message = [],
         resp_content = [0x25, 0x50, 0x44, 0x46], resp_text = ''%PDF'', resp_json = Inl []\<rparr>)
      ''BILLS-116hr1-ih'' ''pdf'' False)
     = Inr (JObj [(''content_type'', JStr ''pdf''), (''base64_content'', JStr ''JVBERg=='')])
   \<and> b64decode ''JVBERg=='' = Some [0x25, 0x50, 0x44, 0x46]"
proof -
  define r where "r = \<lparr>status_code = 200, status_message = [],
     resp_content = [0x25, 0x50, 0x44, 0x46 :: byte], resp_text = ''%PDF'', resp_json = Inl []\<rparr>"
  have enc: "b64encode (resp_content r) = ''JVBERg==''"
    by (simp add: r_def Let_def b64_char_def b64_alphabet_def)
  have "\<exists>s. result (get_package_content (Some ''key'') (\<lambda>req. Answer r) ''BILLS-116hr1-ih''
                ''pdf'' False)
              = Inr (JObj [(''content_type'', JStr ''pdf''), (''base64_content'', JStr s)])
           \<and> b64decode s = Some (resp_content r)"
    by (rule pdf_content_roundtrip [where net = "\<lambda>req. Answer r" and r = r])
       (simp_all add: r_def)
  then obtain s where
    res: "result (get_package_content (Some ''key'') (\<lambda>req. Answer r) ''BILLS-116hr1-ih''
                ''pdf'' False)
              = Inr (JObj [(''content_type'', JStr ''pdf''), (''base64_content'', JStr s)])"
    and dec: "b64decode s = Some (resp_content r)"
    by blast
  have "result (get_package_content (Some ''key'') (\<lambda>req. Answer r) ''BILLS-116hr1-ih''
                ''pdf'' False)
          = Inr (JObj [(''content_type'', JStr ''pdf''),
                       (''base64_content'', JStr (b64encode (resp_content r)))])"
    by (simp add: get_package_content_def Let_def request_ok_def raise_for_status_def
          returned_def not_textual_pdf r_def)
  with res have "s = b64encode (resp_content r)" by simp
  with enc have "s = ''JVBERg==''" by simp
  with res dec show ?thesis by (simp add: r_def)
qed

text \<open>
  C9. With a key configured, for a content type whose lowercase form is none of
  \<open>html\<close>, \<open>xml\<close>, \<open>pdf\<close>, \<open>text\<close>, \<open>get_package_content\<close> requests the \<open>htm\<close>
  endpoint and, when the upstream answers with a 2xx status, returns the binary wrapper:
  the content type as the caller wrote it and the body in base64, not the text.
\<close>

theorem unknown_content_type_wrapper:
  assumes "\<not> key_missing API_KEY"
    and "py_lower content_type \<notin> {''html'', ''xml'', ''pdf'', ''text''}"
    and "net (get_request API_KEY (''https://api.govinfo.gov/packages/'' @ package_id @ ''/htm'')
           [] 60) = Answer r"
    and "200 \<le> status_code r" and "status_code r < 300"
  shows "map req_url (sent (get_package_content API_KEY net package_id content_type ctx))
           = [''https://api.govinfo.gov/packages/'' @ package_id @ ''/htm'']
         \<and> result (get_package_content API_KEY net package_id content_type ctx)
           = Inr (JObj [(''content_type'', JStr content_type),
                        (''base64_content'', JStr (b64encode (resp_content r)))])"
proof -
  from assms(2) have ep: "endpoint_of content_type = ''htm''"
    by (simp add: endpoint_of_def content_endpoints_def)
  from assms(2) have tx: "\<not> textual content_type"
    by (simp add: textual_def)
  from assms(3) have "net (get_request API_KEY
      (''https://api.govinfo.gov/packages/'' @ package_id @ ''/'' @ endpoint_of content_type) [] 60)
      = Answer r"
    by (simp add: ep)
  from get_package_content_ok [where net = net and r = r, OF assms(1) this assms(4,5)]
  show ?thesis
    by (simp add: returned_def tx ep get_request_def)
qed

text \<open>The content type \<open>foo\<close>: the body \<open><p>\<close> comes back as \<open>PHA+\<close>.\<close>

theorem unknown_content_type_wrapper_witness:
  "map req_url (sent (get_package_content (Some ''key'')
      (\<lambda>req. Answer \<lparr>status_code = 200, status_message = [],
         resp_content = [0x3c, 0x70, 0x3e], resp_text = ''<p>'', resp_json = Inl []\<rparr>)
      ''BILLS-116hr1-ih'' ''foo'' False))
     = [''https://api.govinfo.gov/packages/BILLS-116hr1-ih/htm'']
   \<and> result (get_package_content (Some ''key'')
      (\<lambda>req. Answer \<lparr>status_code = 200, status_message = [],
         resp_content = [0x3c, 0x70, 0x3e], resp_text = ''<p>'', resp_json = Inl []\<rparr>)
      ''BILLS-116hr1-ih'' ''foo'' False)
     = Inr (JObj [(''content_type'', JStr ''foo''), (''base64_content'', JStr ''PHA+'')])"
proof -
  have lower: "py_lower ''foo'' \<notin> {''html'', ''xml'', ''pdf'', ''text''}"
    by (simp add: py_lower_def py_lower_char_def ascii_uppercase_def ascii_lowercase_def)
  have key: "\<not> key_missing (Some ''key'')" by simp
  show ?thesis
    using unknown_content_type_wrapper [OF key lower, where net =
        "\<lambda>req. Answer \<lparr>status_code = 200, status_message = [],
           resp_content = [0x3c, 0x70, 0x3e], resp_text = ''<p>'', resp_json = Inl []\<rparr>"
        and package_id = "''BILLS-116hr1-ih''" and ctx = False and r =
        "\<lparr>status_code = 200, status_message = [],
           resp_content = [0x3c, 0x70, 0x3e], resp_text = ''<p>'', resp_json = Inl []\<rparr>"]
    by (simp add: Let_def b64_char_def b64_alphabet_def)
qed

text \<open>
  C10. \<open>get_package_content\<close> routes on the lowercase form of the content type: for
  every content type \<open>c\<close> the request sent, the endpoint and the choice between the
  textual and the binary branch are those of \<open>lowercase(c)\<close>; when the branch is the
  textual one the two calls return the same string; they raise the same exceptions;
  and in the binary branch the two wrappers carry the same base64 text and differ only
  in the echoed content type, which keeps the caller's spelling.
\<close>

theorem content_type_case_insensitive:
  "sent (get_package_content API_KEY net package_id c ctx)
     = sent (get_package_content API_KEY net package_id (py_lower c) ctx)
   \<and> endpoint_of c = endpoint_of (py_lower c)
   \<and> textual c = textual (py_lower c)
   \<and> (textual c \<longrightarrow>
        result (get_package_content API_KEY net package_id c ctx)
          = result (get_package_content API_KEY net package_id (py_lower c) ctx))
   \<and> (\<forall>e. result (get_package_content API_KEY net package_id c ctx) = Inl e
          \<longleftrightarrow> result (get_package_content API_KEY net package_id (py_lower c) ctx) = Inl e)
   \<and> (\<forall>s. result (get_package_content API_KEY net package_id c ctx)
            = Inr (JObj [(''content_type'', JStr c), (''base64_content'', JStr s)])
          \<longleftrightarrow> result (get_package_content API_KEY net package_id (py_lower c) ctx)
            = Inr (JObj [(''content_type'', JStr (py_lower c)), (''base64_content'', JStr s)]))"
  by (simp add: get_package_content_def Let_def endpoint_of_lower textual_lower
        report_and_raise_def returned_def split: sum.split)

text \<open>\<open>HTML\<close> is answered as \<open>html\<close> is.\<close>

theorem content_type_case_insensitive_witness:
  "result (get_package_content (Some ''key'')
      (\<lambda>req. Answer \<lparr>status_code = 200, status_message = [],
         resp_content = [0x3c, 0x70, 0x3e], resp_text = ''<p>'', resp_json = Inl []\<rparr>)
      ''BILLS-116hr1-ih'' ''HTML'' False)
     = result (get_package_content (Some ''key'')
      (\<lambda>req. Answer \<lparr>status_code = 200, status_message = [],
         resp_content = [0x3c, 0x70, 0x3e], resp_text = ''<p>'', resp_json = Inl []\<rparr>)
      ''BILLS-116hr1-ih'' ''html'' False)"
proof -
  have lower: "py_lower ''HTML'' = ''html''"
    by (simp add: py_lower_def py_lower_char_def ascii_uppercase_def ascii_lowercase_def)
  have tx: "textual ''HTML''"
    by (simp add: textual_def lower)
  from content_type_case_insensitive [of "Some ''key''"
      "\<lambda>req. Answer \<lparr>status_code = 200, status_message = [],
         resp_content = [0x3c, 0x70, 0x3e], resp_text = ''<p>'', resp_json = Inl []\<rparr>"
      "''BILLS-116hr1-ih''" "''HTML''" False] tx
  show ?thesis
    unfolding lower by blast
qed

subsection \<open>Errors of \<open>get_package_content\<close>\<close>

lemma sublist_inside:
  assumes "sublist w g"
  shows "sublist w (a @ g @ r)"
proof -
  from assms obtain ps ss where "g = ps @ w @ ss"
    by (auto simp: sublist_def)
  then have "a @ g @ r = (a @ ps) @ w @ (ss @ r)"
    by simp
  then show ?thesis
    unfolding sublist_def by blast
qed

lemma guidance_directs:
  "directs_to_formats
     (a @ ''Use get_package_summary() to check available formats in the 'download' field. '' @ r)"
  unfolding directs_to_formats_def
  by (intro conjI sublist_inside) (simp_all add: sublist_code)

lemma content_error_msg_400:
  assumes "status_code r = 400"
  shows "directs_to_formats (content_error_msg package_id content_type (HTTPStatusError m r))"
proof -
  have "content_error_msg package_id content_type (HTTPStatusError m r) =
      (''Content type '' @ quoted content_type @ '' is not available for package ''
          @ quoted package_id @ ''. '')
      @ ''Use get_package_summary() to check available formats in the 'download' field. ''
      @ (''HTTP error: '' @ m)"
    using assms by simp
  then show ?thesis
    by (simp only: guidance_directs)
qed

text \<open>
  C7, as the code has it. With a key configured, when the upstream answers the content
  request with a status outside 2xx, \<open>get_package_content\<close> raises the
  \<open>HTTPStatusError\<close> of the HTTP client unchanged, whatever the status, and reports one
  error message through \<open>ctx.error\<close> (or the process logger when no context is given).
  For status 400 the reported message directs the reader to \<open>get_package_summary()\<close>
  and the \<open>download\<close> field; for every other status it is \<open>HTTP error: \<close> followed by
  the text of the exception.
\<close>

theorem content_error_report:
  assumes "\<not> key_missing API_KEY"
    and "net (get_request API_KEY
           (''https://api.govinfo.gov/packages/'' @ package_id @ ''/'' @ endpoint_of content_type)
           [] 60) = Answer r"
    and "\<not> (200 \<le> status_code r \<and> status_code r < 300)"
  shows "result (get_package_content API_KEY net package_id content_type ctx)
           = Inl (HTTPStatusError (status_message r) r)
         \<and> reports (get_package_content API_KEY net package_id content_type ctx)
           = [(sink_of ctx,
               content_error_msg package_id content_type (HTTPStatusError (status_message r) r))]
         \<and> (status_code r = 400 \<longrightarrow>
              directs_to_formats
                (content_error_msg package_id content_type (HTTPStatusError (status_message r) r)))
         \<and> (status_code r \<noteq> 400 \<longrightarrow>
              content_error_msg package_id content_type (HTTPStatusError (status_message r) r)
                = ''HTTP error: '' @ status_message r)"
proof -
  from assms have "request_ok net (get_request API_KEY
           (''https://api.govinfo.gov/packages/'' @ package_id @ ''/'' @ endpoint_of content_type)
           [] 60) = Inl (HTTPStatusError (status_message r) r)"
    by (simp add: request_ok_def raise_for_status_def)
  with assms(1) show ?thesis
    by (simp add: get_package_content_def Let_def content_error_msg_400 del: content_error_msg.simps)
       simp
qed

text \<open>A 400 answer to a \<open>pdf\<close> request, with a context to report to.\<close>

theorem content_error_report_witness:
  "result (get_package_content (Some ''key'')
      (\<lambda>req. Answer \<lparr>status_code = 400, status_message = ''400 Bad Request'',
         resp_content = [], resp_text = [], resp_json = Inl []\<rparr>)
      ''BILLS-116hr1-ih'' ''pdf'' True)
     = Inl (HTTPStatusError ''400 Bad Request''
         \<lparr>status_code = 400, status_message = ''400 Bad Request'',
          resp_content = [], resp_text = [], resp_json = Inl []\<rparr>)
   \<and> reports (get_package_content (Some ''key'')
      (\<lambda>req. Answer \<lparr>status_code = 400, status_message = ''400 Bad Request'',
         resp_content = [], resp_text = [], resp_json = Inl []\<rparr>)
      ''BILLS-116hr1-ih'' ''pdf'' True)
     = [(Ctx, ''Content type '' @ quoted ''pdf'' @ '' is not available for package ''
          @ quoted ''BILLS-116hr1-ih''
          @ ''. Use get_package_summary() to check available formats in the 'download' field. HTTP error: 400 Bad Request'')]"
proof -
  define r where "r = \<lparr>status_code = 400, status_message = ''400 Bad Request'',
         resp_content = [] :: byte list, resp_text = [], resp_json = Inl []\<rparr>"
  have key: "\<not> key_missing (Some ''key'')" by simp
  have ans: "(\<lambda>req. Answer r) (get_request (Some ''key'')
           (''https://api.govinfo.gov/packages/'' @ ''BILLS-116hr1-ih'' @ ''/'' @ endpoint_of ''pdf'')
           [] 60) = Answer r"
    by simp
  have bad: "\<not> (200 \<le> status_code r \<and> status_code r < 300)"
    by (simp add: r_def)
  from content_error_report [where net = "\<lambda>req. Answer r" and r = r and ctx = True,
      OF key ans bad]
  show ?thesis
    by (simp add: r_def sink_of_def quoted_def)
qed

text \<open>
  C7 as stated has the error that reaches the caller carry the guidance. The caller of
  the function receives the exception, and its message is the client's own; called
  without a context, the guidance goes to the process logger only.
\<close>

theorem raised_error_has_no_guidance:
  "result (get_package_content (Some ''key'')
      (\<lambda>req. Answer \<lparr>status_code = 400, status_message = ''400 Bad Request'',
         resp_content = [], resp_text = [], resp_json = Inl []\<rparr>)
      ''BILLS-116hr1-ih'' ''pdf'' False)
     = Inl (HTTPStatusError ''400 Bad Request''
         \<lparr>status_code = 400, status_message = ''400 Bad Request'',
          resp_content = [], resp_text = [], resp_json = Inl []\<rparr>)
   \<and> \<not> directs_to_formats (str_error (HTTPStatusError ''400 Bad Request''
         \<lparr>status_code = 400, status_message = ''400 Bad Request'',
          resp_content = [], resp_text = [], resp_json = Inl []\<rparr>))
   \<and> map fst (reports (get_package_content (Some ''key'')
      (\<lambda>req. Answer \<lparr>status_code = 400, status_message = ''400 Bad Request'',
         resp_content = [], resp_text = [], resp_json = Inl []\<rparr>)
      ''BILLS-116hr1-ih'' ''pdf'' False)) = [Logger]"
  by (simp add: get_package_content_def Let_def request_ok_def raise_for_status_def
        directs_to_formats_def sublist_code sink_of_def)

subsection \<open>The path of \<open>get_packages_by_collection\<close>\<close>

lemma minus_days_time:
  assumes "minus_days now k = Inr d" and "valid_time now"
  shows "dt_hour d = dt_hour now \<and> dt_minute d = dt_minute now \<and> dt_second d = dt_second now"
proof -
  define total where "total = dt_hour now * 3600 + dt_minute now * 60 + dt_second now"
  from assms(2) have h: "dt_hour now < 24" and m: "dt_minute now < 60" and s: "dt_second now < 60"
    by (simp_all add: valid_time_def)
  then have "total < 86400" by (simp add: total_def)
  then have day: "total div 86400 = 0" and tot: "total mod 86400 = total" by simp_all
  have "total = dt_hour now * 3600 + (dt_minute now * 60 + dt_second now)"
    by (simp add: total_def)
  moreover from m s have ms: "dt_minute now * 60 + dt_second now < 3600" by simp
  ultimately have hour: "total div 3600 = dt_hour now"
    and rest: "total mod 3600 = dt_minute now * 60 + dt_second now"
    by simp_all
  from s have minute: "(dt_minute now * 60 + dt_second now) div 60 = dt_minute now"
    and second: "(dt_minute now * 60 + dt_second now) mod 60 = dt_second now"
    by simp_all
  from assms(1) show ?thesis
    unfolding minus_days_def Let_def total_def [symmetric] tot hour rest minute second
    by (auto split: if_splits prod.splits)
qed

lemma strftime_iso_time:
  assumes "minus_days now k = Inr d" and "valid_time now"
  shows "strftime_iso d = strftime_date d @ ''T'' @ zfill 2 (str_nat (dt_hour now)) @ '':''
           @ zfill 2 (str_nat (dt_minute now)) @ '':'' @ zfill 2 (str_nat (dt_second now)) @ ''Z''"
  using minus_days_time [OF assms]
  by (simp add: strftime_iso_def strftime_date_def)

text \<open>
  C5, as the code has it. With a key configured, the request path of
  \<open>get_packages_by_collection\<close> is \<open>/collections/{collection}/{start}\<close>, followed by
  \<open>/{end_date}T23:59:59Z\<close> exactly when \<open>end_date\<close> is given. A given \<open>start_date\<close>
  becomes \<open>{start_date}T00:00:00Z\<close>. With no \<open>start_date\<close>, the lower bound is the
  current UTC time minus 365 days printed as \<open>YYYY-MM-DDTHH:MM:SSZ\<close>: the date is the
  one 365 days back and the time of day is the current one.
\<close>

theorem packages_by_collection_path:
  assumes "\<not> key_missing API_KEY"
  shows "(start_date \<noteq> [] \<longrightarrow>
            map req_url (sent (get_packages_by_collection API_KEY now net collection congress
               doc_class start_date end_date page_size offset_mark ctx))
              = [''https://api.govinfo.gov/collections/'' @ collection @ ''/''
                  @ start_date @ ''T00:00:00Z''
                  @ (if end_date \<noteq> [] then ''/'' @ end_date @ ''T23:59:59Z'' else [])])
       \<and> (\<forall>d. start_date = [] \<and> minus_days now 365 = Inr d \<longrightarrow>
            map req_url (sent (get_packages_by_collection API_KEY now net collection congress
               doc_class start_date end_date page_size offset_mark ctx))
              = [''https://api.govinfo.gov/collections/'' @ collection @ ''/''
                  @ strftime_iso d
                  @ (if end_date \<noteq> [] then ''/'' @ end_date @ ''T23:59:59Z'' else [])]
            \<and> (valid_time now \<longrightarrow>
                 strftime_iso d = strftime_date d @ ''T'' @ zfill 2 (str_nat (dt_hour now)) @ '':''
                   @ zfill 2 (str_nat (dt_minute now)) @ '':''
                   @ zfill 2 (str_nat (dt_second now)) @ ''Z''))"
proof (intro conjI impI allI)
  assume "start_date \<noteq> []"
  with assms show "map req_url (sent (get_packages_by_collection API_KEY now net collection congress
               doc_class start_date end_date page_size offset_mark ctx))
              = [''https://api.govinfo.gov/collections/'' @ collection @ ''/''
                  @ start_date @ ''T00:00:00Z''
                  @ (if end_date \<noteq> [] then ''/'' @ end_date @ ''T23:59:59Z'' else [])]"
    by (simp add: get_packages_by_collection_def Let_def get_request_def)
next
  fix d
  assume h: "start_date = [] \<and> minus_days now 365 = Inr d"
  with assms show "map req_url (sent (get_packages_by_collection API_KEY now net collection congress
               doc_class start_date end_date page_size offset_mark ctx))
              = [''https://api.govinfo.gov/collections/'' @ collection @ ''/''
                  @ strftime_iso d
                  @ (if end_date \<noteq> [] then ''/'' @ end_date @ ''T23:59:59Z'' else [])]"
    by (simp add: get_packages_by_collection_def Let_def get_request_def)
  assume valid: "valid_time now"
  from h have "minus_days now 365 = Inr d" by simp
  from strftime_iso_time [OF this valid]
  show "strftime_iso d = strftime_date d @ ''T'' @ zfill 2 (str_nat (dt_hour now)) @ '':''
                   @ zfill 2 (str_nat (dt_minute now)) @ '':''
                   @ zfill 2 (str_nat (dt_second now)) @ ''Z''" .
qed

lemma march_2025:
  "minus_days
     \<lparr>dt_year = 2025, dt_month = 3, dt_day = 10, dt_hour = 14, dt_minute = 30, dt_second = 45\<rparr> 365
   = Inr \<lparr>dt_year = 2024, dt_month = 3, dt_day = 10, dt_hour = 14, dt_minute = 30, dt_second = 45\<rparr>"
  by (simp add: minus_days_def ymd2ord_def days_before_year_def days_before_month_def
        DAYS_BEFORE_MONTH_def DAYS_IN_MONTH_def is_leap_def ord2ymd_def MAXORDINAL_def Let_def)

lemma march_2024_iso:
  "strftime_iso
     \<lparr>dt_year = 2024, dt_month = 3, dt_day = 10, dt_hour = 14, dt_minute = 30, dt_second = 45\<rparr>
   = ''2024-03-10T14:30:45Z''"
  by (simp add: strftime_iso_def zfill_def str_nat.simps)

text \<open>
  On 10 March 2025 at 14:30:45 UTC: the default lower bound with an end date, and a
  given start date without one.
\<close>

theorem packages_by_collection_path_witness:
  "map req_url (sent (get_packages_by_collection (Some ''key'')
      \<lparr>dt_year = 2025, dt_month = 3, dt_day = 10, dt_hour = 14, dt_minute = 30, dt_second = 45\<rparr>
      (\<lambda>req. Refused ''offline'') ''BILLS'' None [] [] ''2025-01-31'' 50 ''*'' False))
   = [''https://api.govinfo.gov/collections/BILLS/2024-03-10T14:30:45Z/2025-01-31T23:59:59Z'']
   \<and> map req_url (sent (get_packages_by_collection (Some ''key'')
      \<lparr>dt_year = 2025, dt_month = 3, dt_day = 10, dt_hour = 14, dt_minute = 30, dt_second = 45\<rparr>
      (\<lambda>req. Refused ''offline'') ''BILLS'' None [] ''2025-01-01'' [] 50 ''*'' False))
   = [''https://api.govinfo.gov/collections/BILLS/2025-01-01T00:00:00Z'']"
proof -
  have key: "\<not> key_missing (Some ''key'')" by simp
  note a = packages_by_collection_path [OF key, of "[]"
      "\<lparr>dt_year = 2025, dt_month = 3, dt_day = 10, dt_hour = 14, dt_minute = 30, dt_second = 45\<rparr>"
      "\<lambda>req. Refused ''offline''" "''BILLS''" None "[]" "''2025-01-31''" 50 "''*''" False]
  note b = packages_by_collection_path [OF key, of "''2025-01-01''"
      "\<lparr>dt_year = 2025, dt_month = 3, dt_day = 10, dt_hour = 14, dt_minute = 30, dt_second = 45\<rparr>"
      "\<lambda>req. Refused ''offline''" "''BILLS''" None "[]" "[]" 50 "''*''" False]
  from a march_2025 have
    "map req_url (sent (get_packages_by_collection (Some ''key'')
      \<lparr>dt_year = 2025, dt_month = 3, dt_day = 10, dt_hour = 14, dt_minute = 30, dt_second = 45\<rparr>
      (\<lambda>req. Refused ''offline'') ''BILLS'' None [] [] ''2025-01-31'' 50 ''*'' False))
     = [''https://api.govinfo.gov/collections/'' @ ''BILLS'' @ ''/''
          @ strftime_iso \<lparr>dt_year = 2024, dt_month = 3, dt_day = 10, dt_hour = 14,
              dt_minute = 30, dt_second = 45\<rparr>
          @ ''/'' @ ''2025-01-31'' @ ''T23:59:59Z'']"
    by simp
  moreover from b have
    "map req_url (sent (get_packages_by_collection (Some ''key'')
      \<lparr>dt_year = 2025, dt_month = 3, dt_day = 10, dt_hour = 14, dt_minute = 30, dt_second = 45\<rparr>
      (\<lambda>req. Refused ''offline'') ''BILLS'' None [] ''2025-01-01'' [] 50 ''*'' False))
     = [''https://api.govinfo.gov/collections/BILLS/2025-01-01T00:00:00Z'']"
    by simp
  ultimately show ?thesis
    by (simp add: march_2024_iso)
qed

text \<open>
  C5 as stated fixes the time of day of the default lower bound at midnight. At
  14:30:45 the path carries \<open>T14:30:45Z\<close>.
\<close>

theorem default_start_keeps_time_of_day:
  "claimed_default_start
      \<lparr>dt_year = 2025, dt_month = 3, dt_day = 10, dt_hour = 14, dt_minute = 30, dt_second = 45\<rparr>
     = Inr ''2024-03-10T00:00:00Z''
   \<and> map req_url (sent (get_packages_by_collection (Some ''key'')
      \<lparr>dt_year = 2025, dt_month = 3, dt_day = 10, dt_hour = 14, dt_minute = 30, dt_second = 45\<rparr>
      (\<lambda>req. Refused ''offline'') ''BILLS'' None [] [] [] 50 ''*'' False))
     = [''https://api.govinfo.gov/collections/BILLS/2024-03-10T14:30:45Z'']
   \<and> map req_url (sent (get_packages_by_collection (Some ''key'')
      \<lparr>dt_year = 2025, dt_month = 3, dt_day = 10, dt_hour = 14, dt_minute = 30, dt_second = 45\<rparr>
      (\<lambda>req. Refused ''offline'') ''BILLS'' None [] [] [] 50 ''*'' False))
     \<noteq> [''https://api.govinfo.gov/collections/BILLS/2024-03-10T00:00:00Z'']"
  by (simp add: claimed_default_start_def get_packages_by_collection_def march_2025
        march_2024_iso get_request_def strftime_date_def zfill_def str_nat.simps)

end
